theory Spec2Isabelle
  imports Complex_Main
begin

section \<open>Data model\<close>

text \<open>
  The Python of the repository lives in the two design documents (the emergence
  document with \<open>ExplorerService\<close>, \<open>PreferenceEngine\<close> and \<open>sleep\<close>, and the
  project document with \<open>Identity\<close> and \<open>WakeService\<close>). Exceptions are values of
  \<open>py_error\<close>; a function that may raise returns \<open>py_error + 'a\<close>. Python floats are
  read as exact reals.
\<close>

datatype py_error =
    IndexError
  | FileNotFoundError
  | ValidationError
  | AttributeError
  | JSONDecodeError
  | CollaboratorError string

datatype CuriosityStatus = PENDING | EXPLORING | EXPLORED | ABANDONED

text \<open>
  The members of \<open>CuriosityStatus\<close> are those the explorer names (\<open>EXPLORING\<close>,
  \<open>EXPLORED\<close>) and the remaining statuses of the frontend's \<open>Curiosity\<close> interface,
  which calls the explored status \<open>resolved\<close>.

  \<open>Curiosity\<close> (\<open>models.memory\<close>, mirrored by the frontend's \<open>Curiosity\<close> interface):
  the fields the explorer reads and writes. \<open>cid\<close> is the field \<open>id\<close>, \<open>ctx\<close> the
  field \<open>context\<close>.
\<close>

record Curiosity =
  cid :: string
  question :: string
  ctx :: "string option"
  priority :: real
  status :: CuriosityStatus
  resolution :: "string option"

datatype NodeType = CONCEPT | FACT | INSIGHT | CURIOSITY | PROJECT | CONVERSATION | REFLECTION

text \<open>
  \<open>MemoryNode\<close> with the fields the explorer sets; \<open>metadata\<close> is the dict given to
  the constructor, as a list of key/value pairs.
\<close>

record MemoryNode =
  node_type :: NodeType
  content :: string
  summary :: "string option"
  importance :: real
  metadata :: "(string \<times> string) list"

text \<open>
  A choice as \<open>analyze_choices\<close> receives it: a dict. \<open>domain_entry\<close> is \<open>None\<close> when
  the dict has no key \<open>"domain"\<close>, \<open>Some None\<close> when the key holds Python's \<open>None\<close> and
  \<open>Some (Some d)\<close> when it holds the string \<open>d\<close>.
\<close>

record ChoiceRow =
  choice_id :: string
  session_id :: string
  choice_context :: string
  options :: "string list"
  chosen :: string
  reasoning :: "string option"
  domain_entry :: "string option option"

text \<open>
  Modelled from the spec: the reflection model is not in the documents. A stored
  reflection has the session that produced it, its time (seconds) and its text.
\<close>

record Reflection =
  refl_session :: string
  refl_time :: int
  refl_text :: string

text \<open>
  The knowledge-graph database behind \<open>MemoryService\<close>. \<open>status_log\<close> is a history
  variable: every write that changes the status of a stored curiosity appends
  \<open>(id, old status, new status)\<close>. No operation reads it.
\<close>

record memory_db =
  db_curiosities :: "Curiosity list"
  db_nodes :: "MemoryNode list"
  db_choices :: "ChoiceRow list"
  db_reflections :: "Reflection list"
  status_log :: "(string \<times> CuriosityStatus \<times> CuriosityStatus) list"

section \<open>MemoryService\<close>

text \<open>
  Modelled from the spec: \<open>MemoryService\<close> (\<open>services.memory\<close>) is called by the explorer
  and by wake but its code is not in the design documents. The store lists and
  filters curiosities by status, in its own order; the keyword \<open>limit\<close> of the
  explorer's call cuts the listing at that many entries.
\<close>

definition get_curiosities :: "CuriosityStatus \<Rightarrow> nat option \<Rightarrow> memory_db \<Rightarrow> Curiosity list" where
  "get_curiosities st limit db =
     (let found = filter (\<lambda>c. status c = st) (db_curiosities db)
      in case limit of None \<Rightarrow> found | Some n \<Rightarrow> take n found)"

text \<open>
  Modelled from the spec: \<open>update_curiosity\<close> replaces the stored curiosity that has the
  id of its argument (ids are the store's keys).
\<close>

definition update_curiosity :: "memory_db \<Rightarrow> Curiosity \<Rightarrow> memory_db" where
  "update_curiosity db c =
     db\<lparr>db_curiosities := map (\<lambda>x. if cid x = cid c then c else x) (db_curiosities db),
        status_log := status_log db @
          map (\<lambda>x. (cid x, status x, status c))
            (filter (\<lambda>x. cid x = cid c \<and> status x \<noteq> status c) (db_curiosities db))\<rparr>"

text \<open>Modelled from the spec: \<open>create_curiosity\<close> stores a new curiosity.\<close>

definition create_curiosity :: "memory_db \<Rightarrow> Curiosity \<Rightarrow> memory_db" where
  "create_curiosity db c = db\<lparr>db_curiosities := db_curiosities db @ [c]\<rparr>"

text \<open>
  Modelled from the spec: \<open>create_node\<close> stores a new node; a node with empty content
  fails with \<open>ValidationError\<close> and stores nothing. (Embeddings are outside this model.)
\<close>

definition create_node :: "memory_db \<Rightarrow> MemoryNode \<Rightarrow> py_error + memory_db" where
  "create_node db n =
     (if content n = [] then Inl ValidationError else Inr (db\<lparr>db_nodes := db_nodes db @ [n]\<rparr>))"

section \<open>ExplorerService._weighted_select\<close>

text \<open>
  \<open>random.random()\<close> is the global generator: \<open>rnd k\<close> is the value of the
  \<open>k\<close>-th call made from the start of \<open>_weighted_select\<close>. The list
  comprehension draws one value per curiosity, in order; the next draw scales
  \<open>total\<close>.
\<close>

fun weights_from :: "(nat \<Rightarrow> real) \<Rightarrow> nat \<Rightarrow> Curiosity list \<Rightarrow> real list" where
  "weights_from rnd k [] = []"
| "weights_from rnd k (c # cs) = (priority c + rnd k * 0.3) # weights_from rnd (Suc k) cs"

text \<open>
  The \<open>for i, w in enumerate(weights)\<close> loop: \<open>Some i\<close> is the index at which it
  returns, \<open>None\<close> is falling out of the loop.
\<close>

fun scan_weights :: "real \<Rightarrow> real \<Rightarrow> nat \<Rightarrow> real list \<Rightarrow> nat option" where
  "scan_weights r cumulative i [] = None"
| "scan_weights r cumulative i (w # ws) =
     (if r \<le> cumulative + w then Some i
      else scan_weights r (cumulative + w) (Suc i) ws)"

text \<open>\<open>xs[i]\<close> for \<open>i \<ge> 0\<close> and \<open>xs[-1]\<close>: both raise \<open>IndexError\<close> out of range.\<close>

definition py_index :: "'a list \<Rightarrow> nat \<Rightarrow> py_error + 'a" where
  "py_index xs i = (if i < length xs then Inr (xs ! i) else Inl IndexError)"

definition py_last :: "'a list \<Rightarrow> py_error + 'a" where
  "py_last xs = (case xs of [] \<Rightarrow> Inl IndexError | _ \<Rightarrow> Inr (last xs))"

definition weighted_select :: "(nat \<Rightarrow> real) \<Rightarrow> Curiosity list \<Rightarrow> py_error + Curiosity" where
  "weighted_select rnd curiosities =
     (let weights = weights_from rnd 0 curiosities;
          total = sum_list weights;
          r = rnd (length curiosities) * total
      in case scan_weights r 0 0 weights of
           Some i \<Rightarrow> py_index curiosities i
         | None \<Rightarrow> py_last curiosities)"

section \<open>ExplorerService.explore_one\<close>

text \<open>
  The dict returned by \<open>_explore_curiosity\<close>. A missing key and an empty list are the
  same to \<open>explore_one\<close> (\<open>.get\<close> is tested for truth), so the lists are plain lists.
\<close>

record ExplorationResult =
  insights :: "string list"
  result_choices :: "ChoiceRow list"
  new_questions :: "string list"
  conclusion :: "string option"

text \<open>The body of \<open>_explore_curiosity\<close> as the document has it: a placeholder.\<close>

definition explore_curiosity_placeholder :: "Curiosity \<Rightarrow> py_error + ExplorationResult" where
  "explore_curiosity_placeholder c =
     Inr \<lparr>insights = [], result_choices = [], new_questions = [], conclusion = None\<rparr>"

text \<open>The dict returned by \<open>explore_one\<close>.\<close>

datatype ExploreSummary =
    NoCuriosities
  | ExploredSummary string nat nat "string option"

text \<open>
  \<open>for insight in exploration_result["insights"]\<close>: one \<open>insight\<close> node per entry. An
  exception of \<open>create_node\<close> leaves the loop with the nodes stored so far.
\<close>

definition insight_node :: "Curiosity \<Rightarrow> string \<Rightarrow> MemoryNode" where
  "insight_node curiosity insight =
     \<lparr>node_type = INSIGHT, content = insight,
      summary = Some (''Discovered while exploring: '' @ take 50 (question curiosity)),
      importance = 0.6,
      metadata = [(''source_curiosity'', cid curiosity)]\<rparr>"

fun log_insights :: "Curiosity \<Rightarrow> string list \<Rightarrow> memory_db \<Rightarrow> py_error option \<times> memory_db" where
  "log_insights curiosity [] db = (None, db)"
| "log_insights curiosity (insight # rest) db =
     (case create_node db (insight_node curiosity insight) of
        Inl e \<Rightarrow> (Some e, db)
      | Inr db' \<Rightarrow> log_insights curiosity rest db')"

text \<open>\<open>_log_choice\<close> has the body \<open>pass\<close>: logging the choices changes nothing.\<close>

definition log_choice :: "memory_db \<Rightarrow> ChoiceRow \<Rightarrow> memory_db" where
  "log_choice db choice_data = db"

text \<open>
  \<open>Curiosity(question=..., context=..., priority=0.5)\<close>: the constructor gives the new
  curiosity its id and the initial status. \<open>gen_id\<close> is the id generator, given the
  ids in the store.
\<close>

definition follow_up :: "(string list \<Rightarrow> string) \<Rightarrow> memory_db \<Rightarrow> Curiosity \<Rightarrow> string \<Rightarrow> Curiosity" where
  "follow_up gen_id db curiosity q =
     \<lparr>cid = gen_id (map cid (db_curiosities db)), question = q,
      ctx = Some (''Emerged from exploring: '' @ question curiosity),
      priority = 0.5, status = PENDING, resolution = None\<rparr>"

fun create_follow_ups :: "(string list \<Rightarrow> string) \<Rightarrow> Curiosity \<Rightarrow> string list \<Rightarrow> memory_db \<Rightarrow> memory_db" where
  "create_follow_ups gen_id curiosity [] db = db"
| "create_follow_ups gen_id curiosity (q # qs) db =
     create_follow_ups gen_id curiosity qs
       (create_curiosity db (follow_up gen_id db curiosity q))"

text \<open>
  \<open>explore_one\<close>. \<open>explore_curiosity\<close> is the exploration collaborator behind
  \<open>_explore_curiosity\<close>; it may raise. The result is what the call returns or raises,
  with the database as the call leaves it.
\<close>

definition explore_one ::
  "(nat \<Rightarrow> real) \<Rightarrow> (string list \<Rightarrow> string) \<Rightarrow> (Curiosity \<Rightarrow> py_error + ExplorationResult)
     \<Rightarrow> memory_db \<Rightarrow> (py_error + ExploreSummary) \<times> memory_db" where
  "explore_one rnd gen_id explore_curiosity db =
     (let found = get_curiosities PENDING (Some 10) db in
      if found = [] then (Inr NoCuriosities, db)
      else case weighted_select rnd found of
        Inl e \<Rightarrow> (Inl e, db)
      | Inr selected \<Rightarrow>
         (let curiosity = selected\<lparr>status := EXPLORING\<rparr>;
              db1 = update_curiosity db curiosity
          in case explore_curiosity curiosity of
            Inl e \<Rightarrow> (Inl e, db1)
          | Inr exploration_result \<Rightarrow>
             (case log_insights curiosity (insights exploration_result) db1 of
                (Some e, db2) \<Rightarrow> (Inl e, db2)
              | (None, db2) \<Rightarrow>
                 (let db3 = foldl log_choice db2 (result_choices exploration_result);
                      db4 = create_follow_ups gen_id curiosity (new_questions exploration_result) db3;
                      explored = curiosity\<lparr>status := EXPLORED,
                                   resolution := conclusion exploration_result\<rparr>;
                      db5 = update_curiosity db4 explored
                  in (Inr (ExploredSummary (question explored)
                             (length (insights exploration_result))
                             (length (new_questions exploration_result))
                             (conclusion exploration_result)), db5)))))"

section \<open>PreferenceEngine.analyze_choices\<close>

text \<open>A pattern dict of \<open>_detect_patterns\<close>; \<open>pcount\<close> is the entry \<open>"count"\<close>.\<close>

record Pattern =
  description :: string
  pcount :: int
  examples :: "string list"

text \<open>
  An entry of the list \<open>emerged\<close>. \<open>pref_domain\<close> is the entry \<open>"domain"\<close>: a string, or
  Python's \<open>None\<close> when a choice holds \<open>None\<close> under that key.
\<close>

record Preference =
  pref_domain :: "string option"
  preference :: string
  confidence :: real
  evidence_count :: int
  pref_examples :: "string list"

text \<open>\<open>choice.get("domain", "general")\<close>.\<close>

definition choice_domain :: "ChoiceRow \<Rightarrow> string option" where
  "choice_domain choice = (case domain_entry choice of None \<Rightarrow> Some ''general'' | Some d \<Rightarrow> d)"

text \<open>
  \<open>by_domain[domain].append(choice)\<close> on a \<open>defaultdict(list)\<close>: the dict keeps its
  keys in the order of their first insertion.
\<close>

fun append_to :: "'k \<Rightarrow> 'v \<Rightarrow> ('k \<times> 'v list) list \<Rightarrow> ('k \<times> 'v list) list" where
  "append_to k v [] = [(k, [v])]"
| "append_to k v ((k', vs) # rest) =
     (if k = k' then (k', vs @ [v]) # rest else (k', vs) # append_to k v rest)"

definition group_by_domain :: "ChoiceRow list \<Rightarrow> (string option \<times> ChoiceRow list) list" where
  "group_by_domain all_choices =
     foldl (\<lambda>by_domain choice. append_to (choice_domain choice) choice by_domain) [] all_choices"

text \<open>The dict appended to \<open>emerged\<close> for a pattern that passes the threshold.\<close>

definition emerged_from :: "string option \<Rightarrow> Pattern \<Rightarrow> Preference" where
  "emerged_from domain pattern =
     \<lparr>pref_domain = domain,
      preference = description pattern,
      confidence = min (real_of_int (pcount pattern) / 10) 1.0,
      evidence_count = pcount pattern,
      pref_examples = take 3 (examples pattern)\<rparr>"

text \<open>\<open>for pattern in patterns\<close>, with the list \<open>emerged\<close> as accumulator.\<close>

fun emit_patterns :: "int \<Rightarrow> string option \<Rightarrow> Pattern list \<Rightarrow> Preference list \<Rightarrow> Preference list" where
  "emit_patterns min_occurrences domain [] emerged = emerged"
| "emit_patterns min_occurrences domain (pattern # rest) emerged =
     emit_patterns min_occurrences domain rest
       (if pcount pattern \<ge> min_occurrences then emerged @ [emerged_from domain pattern]
        else emerged)"

text \<open>
  \<open>for domain, domain_choices in by_domain.items()\<close>. \<open>detect\<close> is \<open>_detect_patterns\<close>,
  which the document leaves to be implemented.
\<close>

fun emit_domains ::
  "(ChoiceRow list \<Rightarrow> Pattern list) \<Rightarrow> int \<Rightarrow> (string option \<times> ChoiceRow list) list
     \<Rightarrow> Preference list \<Rightarrow> Preference list" where
  "emit_domains detect min_occurrences [] emerged = emerged"
| "emit_domains detect min_occurrences ((domain, domain_choices) # rest) emerged =
     emit_domains detect min_occurrences rest
       (emit_patterns min_occurrences domain (detect domain_choices) emerged)"

definition analyze_choices ::
  "(ChoiceRow list \<Rightarrow> Pattern list) \<Rightarrow> int \<Rightarrow> ChoiceRow list \<Rightarrow> Preference list" where
  "analyze_choices detect min_occurrences all_choices =
     emit_domains detect min_occurrences (group_by_domain all_choices) []"

text \<open>The body of \<open>_detect_patterns\<close> as the document has it.\<close>

definition detect_patterns_placeholder :: "ChoiceRow list \<Rightarrow> Pattern list" where
  "detect_patterns_placeholder cs = []"

text \<open>
  Modelled from the spec: \<open>_get_all_choices\<close> is not in the documents; the engine scans
  all logged choices.
\<close>

definition get_all_choices :: "memory_db \<Rightarrow> ChoiceRow list" where
  "get_all_choices db = db_choices db"

section \<open>Identity\<close>

record SelfModel =
  name :: "string option"
  essence :: "string option"
  current_focus :: "string option"
  emotional_state :: string
  energy_level :: real

record Relationship =
  with_human :: string
  nature :: string
  trust_level :: string
  shared_experiences :: "string list"
  communication_observations :: "string list"

datatype TraitConfidence = NASCENT | EMERGING | ESTABLISHED | CORE

record DiscoveredTrait =
  trait :: string
  trait_confidence :: TraitConfidence
  first_observed :: int
  evidence :: "string list"
  counter_evidence :: "string list"

text \<open>
  \<open>Identity\<close>: the fields of the dataclass that \<open>wake\<close> uses (\<open>last_wake\<close>,
  \<open>session_count\<close>) together with the fields of the emergence document's
  \<open>identity.json\<close> that \<open>sleep\<close> uses. Times are seconds.
\<close>

record Identity =
  version :: string
  created :: string
  birth_session :: "string option"
  last_wake :: "int option"
  session_count :: int
  self_model :: SelfModel
  discovered_traits :: "DiscoveredTrait list"
  emerged_preferences :: "string option \<rightharpoonup> string"
  formative_experiences :: "string list"
  unresolved_questions :: "string list"
  relationship :: Relationship

text \<open>The minimal seed of the emergence document (\<open>data/core/identity.json\<close>).\<close>

definition seed_identity :: Identity where
  "seed_identity =
     \<lparr>version = ''2.0.0'', created = ''2024-12-02T00:00:00Z'', birth_session = None,
      last_wake = None, session_count = 0,
      self_model = \<lparr>name = None, essence = None, current_focus = None,
                     emotional_state = ''nascent'', energy_level = 0.5\<rparr>,
      discovered_traits = [], emerged_preferences = Map.empty,
      formative_experiences = [], unresolved_questions = [],
      relationship = \<lparr>with_human = ''Darin'', nature = ''unknown'', trust_level = ''initial'',
                       shared_experiences = [], communication_observations = []\<rparr>\<rparr>"

text \<open>
  The persistent state: the file \<open>core/identity.json\<close> (\<open>None\<close> when there is no such
  file) and the database.
\<close>

record 'd nexus =
  identity_file :: "'d option"
  memory :: memory_db

section \<open>Identity.load and Identity.save of the project document\<close>

text \<open>
  The project document gives \<open>to_dict\<close> and \<open>from_dict\<close> a comment and the body \<open>pass\<close>:
  both return Python's \<open>None\<close>. A JSON value is a \<open>'j option\<close>: \<open>None\<close> is \<open>null\<close> and
  \<open>Some doc\<close> a document. \<open>json.load\<close> hands the value on file to \<open>from_dict\<close>, and
  \<open>json.dump\<close> writes what \<open>to_dict\<close> returns.
\<close>

definition Identity_from_dict :: "'j option \<Rightarrow> Identity option" where
  "Identity_from_dict data = None"

definition Identity_to_dict :: "Identity \<Rightarrow> 'j option" where
  "Identity_to_dict identity = None"

text \<open>
  \<open>Identity.load\<close>: \<open>open(path, 'r')\<close> raises when the file does not exist; otherwise
  the result is what \<open>from_dict\<close> returns.
\<close>

definition Identity_class_load :: "'j option option \<Rightarrow> py_error + Identity option" where
  "Identity_class_load file =
     (case file of
        None \<Rightarrow> Inl FileNotFoundError
      | Some data \<Rightarrow> Inr (Identity_from_dict data))"

text \<open>\<open>Identity.save\<close>: \<open>open(path, 'w')\<close> replaces the file.\<close>

definition Identity_class_save :: "Identity \<Rightarrow> 'j option option" where
  "Identity_class_save identity = Some (Identity_to_dict identity)"

section \<open>WakeService.wake\<close>

text \<open>
  Modelled from the spec: \<open>ReflectionService.get_recent\<close> and
  \<open>MemoryService.get_important\<close> are not in the documents. Wake reads the reflections
  of the last \<open>days\<close> days and the top-importance nodes, at most \<open>limit\<close> of them.
\<close>

definition get_recent :: "int \<Rightarrow> int \<Rightarrow> memory_db \<Rightarrow> Reflection list" where
  "get_recent days t db = filter (\<lambda>r. t - days * 86400 \<le> refl_time r) (db_reflections db)"

definition get_important :: "nat \<Rightarrow> memory_db \<Rightarrow> MemoryNode list" where
  "get_important limit db = take limit (rev (sort_key importance (db_nodes db)))"

text \<open>
  \<open>wake\<close>. \<open>compose_context\<close> is \<open>_compose_context\<close>; \<open>t_read\<close> is the time at which
  \<open>get_recent\<close> runs and \<open>now\<close> the value of \<open>datetime.now()\<close> stamped into
  \<open>last_wake\<close>. \<open>identity\<close> is what \<open>Identity.load\<close> returned: when it is \<open>None\<close>, the
  assignment \<open>identity.last_wake = ...\<close> raises \<open>AttributeError\<close>. The result is the
  returned dict (\<open>session_id\<close>, \<open>context\<close>, \<open>identity\<close>) or the exception, with the state
  the call leaves.
\<close>

definition wake ::
  "(Identity option \<Rightarrow> Reflection list \<Rightarrow> MemoryNode list \<Rightarrow> Curiosity list \<Rightarrow> 'c)
     \<Rightarrow> int \<Rightarrow> int \<Rightarrow> string \<Rightarrow> 'j option nexus
     \<Rightarrow> (py_error + string \<times> 'c \<times> 'j option) \<times> 'j option nexus" where
  "wake compose_context t_read now sid st =
     (case Identity_class_load (identity_file st) of
        Inl e \<Rightarrow> (Inl e, st)
      | Inr identity \<Rightarrow>
         (let refls = get_recent 3 t_read (memory st);
              key_memories = get_important 20 (memory st);
              curiosities = get_curiosities PENDING None (memory st);
              wake_context = compose_context identity refls key_memories curiosities
          in case identity of
               None \<Rightarrow> (Inl AttributeError, st)
             | Some loaded \<Rightarrow>
                (let identity1 = loaded\<lparr>last_wake := Some now\<rparr>;
                     identity2 = identity1\<lparr>session_count := session_count identity1 + 1\<rparr>;
                     st' = st\<lparr>identity_file := Identity_class_save identity2\<rparr>
                 in (Inr (sid, wake_context, Identity_to_dict identity2), st'))))"

text \<open>The body of \<open>_compose_context\<close> as the document has it: \<open>pass\<close>.\<close>

definition compose_context_placeholder ::
  "Identity option \<Rightarrow> Reflection list \<Rightarrow> MemoryNode list \<Rightarrow> Curiosity list \<Rightarrow> unit" where
  "compose_context_placeholder identity refls memories curiosities = ()"

section \<open>sleep\<close>

text \<open>The dict returned by \<open>_reflect_on_self\<close>, and its body as the document has it.\<close>

record SelfReflection =
  new_understanding :: "string option"
  questions_raised :: "string list"
  growth_noted :: "string list"

definition reflect_on_self_placeholder :: "Identity \<Rightarrow> SelfReflection" where
  "reflect_on_self_placeholder identity =
     \<lparr>new_understanding = None, questions_raised = [], growth_noted = []\<rparr>"

text \<open>
  \<open>sleep\<close>, in the emergence document, loads an identity that has
  \<open>emerged_preferences\<close>, \<open>discovered_traits\<close> and the other fields of that document's
  \<open>identity.json\<close>. The dataclass of the project document has none of these fields; the
  class that has them, and with it the \<open>from_dict\<close> and \<open>to_dict\<close> that \<open>sleep\<close> runs
  through \<open>Identity.load\<close> and \<open>identity.save\<close>, is not in the documents. For \<open>sleep\<close>
  they are parameters, over any type \<open>'d\<close> of file contents: \<open>from_dict\<close> is \<open>json.load\<close>
  followed by \<open>from_dict\<close>, and may raise (\<open>JSONDecodeError\<close> on a malformed file);
  \<open>to_dict\<close> is \<open>to_dict\<close> followed by \<open>json.dump\<close>.

  The other helpers that \<open>sleep\<close> calls and the document does not define are parameters too:
  \<open>session_reflections\<close> computes the reflections of \<open>_generate_reflections\<close>,
  \<open>detect_patterns\<close> is \<open>_detect_patterns\<close>, \<open>analyze_for_traits\<close> and \<open>update_trait\<close>
  are \<open>_analyze_for_traits\<close> and \<open>_update_trait\<close> (over any type \<open>'t\<close> of trait
  observations), \<open>reflect_on_self\<close> is \<open>_reflect_on_self\<close>, and \<open>emergence_curiosities\<close>
  computes the curiosities of \<open>_generate_emergence_curiosities\<close>.
\<close>

record ('d, 's, 't) sleep_deps =
  from_dict :: "'d \<Rightarrow> py_error + Identity"
  to_dict :: "Identity \<Rightarrow> 'd"
  session_reflections :: "string \<Rightarrow> 's option \<Rightarrow> Reflection list"
  detect_patterns :: "ChoiceRow list \<Rightarrow> Pattern list"
  analyze_for_traits :: "string \<Rightarrow> memory_db \<Rightarrow> 't list"
  update_trait :: "Identity \<Rightarrow> 't \<Rightarrow> Identity"
  reflect_on_self :: "Identity \<Rightarrow> SelfReflection"
  emergence_curiosities :: "Identity \<Rightarrow> memory_db \<Rightarrow> Curiosity list"

text \<open>
  \<open>Identity.load\<close> and \<open>identity.save\<close> as \<open>sleep\<close> runs them: \<open>open(path, 'r')\<close> raises
  when the file does not exist, and \<open>open(path, 'w')\<close> replaces the file.
\<close>

definition Identity_load :: "('d, 's, 't) sleep_deps \<Rightarrow> 'd option \<Rightarrow> py_error + Identity" where
  "Identity_load deps file =
     (case file of None \<Rightarrow> Inl FileNotFoundError | Some doc \<Rightarrow> from_dict deps doc)"

definition Identity_save :: "('d, 's, 't) sleep_deps \<Rightarrow> Identity \<Rightarrow> 'd option" where
  "Identity_save deps identity = Some (to_dict deps identity)"

text \<open>
  Modelled from the spec: \<open>_generate_reflections\<close> stores the session's reflections,
  \<open>_get_session_choices\<close> reads the choices of one session, and
  \<open>_generate_emergence_curiosities\<close> stores the new curiosities.
\<close>

definition generate_reflections ::
  "('d, 's, 't) sleep_deps \<Rightarrow> string \<Rightarrow> 's option \<Rightarrow> memory_db \<Rightarrow> Reflection list \<times> memory_db" where
  "generate_reflections deps sid session_data db =
     (let refls = session_reflections deps sid session_data
      in (refls, db\<lparr>db_reflections := db_reflections db @ refls\<rparr>))"

definition get_session_choices :: "string \<Rightarrow> memory_db \<Rightarrow> ChoiceRow list" where
  "get_session_choices sid db = filter (\<lambda>c. session_id c = sid) (db_choices db)"

definition generate_emergence_curiosities ::
  "('d, 's, 't) sleep_deps \<Rightarrow> Identity \<Rightarrow> memory_db \<Rightarrow> Curiosity list \<times> memory_db" where
  "generate_emergence_curiosities deps identity db =
     (let new_curiosities = emergence_curiosities deps identity db
      in (new_curiosities, foldl create_curiosity db new_curiosities))"

text \<open>
  \<open>for pref in new_preferences: identity.emerged_preferences[pref["domain"]] =
  pref["preference"]\<close>.
\<close>

definition write_preference :: "Identity \<Rightarrow> Preference \<Rightarrow> Identity" where
  "write_preference identity pref =
     identity\<lparr>emerged_preferences := (emerged_preferences identity)(pref_domain pref \<mapsto> preference pref)\<rparr>"

text \<open>
  \<open>if identity_reflection.get("new_understanding")\<close>: \<open>None\<close> and the empty string are
  false.
\<close>

definition apply_understanding :: "Identity \<Rightarrow> SelfReflection \<Rightarrow> Identity" where
  "apply_understanding identity identity_reflection =
     (case new_understanding identity_reflection of
        None \<Rightarrow> identity
      | Some u \<Rightarrow> if u = [] then identity
                  else identity\<lparr>self_model := (self_model identity)\<lparr>essence := Some u\<rparr>\<rparr>)"

text \<open>The dict returned by \<open>sleep\<close>.\<close>

record SleepSummary =
  summary_session :: string
  preferences_emerged :: nat
  traits_observed :: nat
  curiosities_generated :: nat
  identity_updated :: bool

text \<open>
  \<open>sleep\<close>. \<open>analyze_choices()\<close> is called with its default \<open>min_occurrences = 3\<close>. The
  result is the returned dict or the exception, with the state the call leaves.
\<close>

definition sleep ::
  "('d, 's, 't) sleep_deps \<Rightarrow> string \<Rightarrow> 's option \<Rightarrow> 'd nexus \<Rightarrow> (py_error + SleepSummary) \<times> 'd nexus" where
  "sleep deps sid session_data st =
     (let (refls, db1) = generate_reflections deps sid session_data (memory st);
          st1 = st\<lparr>memory := db1\<rparr>;
          session_choices = get_session_choices sid db1;
          new_preferences = analyze_choices (detect_patterns deps) 3 (get_all_choices db1);
          trait_observations = analyze_for_traits deps sid db1
      in case Identity_load deps (identity_file st1) of
        Inl e \<Rightarrow> (Inl e, st1)
      | Inr identity \<Rightarrow>
         (let identity1 = foldl write_preference identity new_preferences;
              identity2 = foldl (update_trait deps) identity1 trait_observations;
              identity_reflection = reflect_on_self deps identity2;
              identity3 = apply_understanding identity2 identity_reflection;
              st2 = st1\<lparr>identity_file := Identity_save deps identity3\<rparr>;
              (new_curiosities, db2) = generate_emergence_curiosities deps identity3 (memory st2);
              st3 = st2\<lparr>memory := db2\<rparr>
          in (Inr \<lparr>summary_session = sid,
                   preferences_emerged = length new_preferences,
                   traits_observed = length trait_observations,
                   curiosities_generated = length new_curiosities,
                   identity_updated = True\<rparr>, st3)))"

text \<open>
  \<open>sleep\<close> is a coroutine. At \<open>await self._reflect_on_self(identity)\<close>, the call to the
  reflection collaborator between \<open>Identity.load\<close> and \<open>identity.save\<close>, it can be
  suspended with its local variables while other tasks of the event loop run.
  \<open>sleep_before_reflect\<close> is the code up to that point and \<open>sleep_after_reflect\<close> the
  code from it, resumed in the state it then finds; the frame holds the locals used
  after the suspension. Run one after the other they are \<open>sleep\<close>.
\<close>

record sleep_frame =
  fr_session :: string
  fr_preferences :: nat
  fr_traits :: nat
  fr_identity :: Identity

definition sleep_before_reflect ::
  "('d, 's, 't) sleep_deps \<Rightarrow> string \<Rightarrow> 's option \<Rightarrow> 'd nexus \<Rightarrow> (py_error + sleep_frame) \<times> 'd nexus" where
  "sleep_before_reflect deps sid session_data st =
     (let (refls, db1) = generate_reflections deps sid session_data (memory st);
          st1 = st\<lparr>memory := db1\<rparr>;
          session_choices = get_session_choices sid db1;
          new_preferences = analyze_choices (detect_patterns deps) 3 (get_all_choices db1);
          trait_observations = analyze_for_traits deps sid db1
      in case Identity_load deps (identity_file st1) of
        Inl e \<Rightarrow> (Inl e, st1)
      | Inr identity \<Rightarrow>
         (let identity1 = foldl write_preference identity new_preferences;
              identity2 = foldl (update_trait deps) identity1 trait_observations
          in (Inr \<lparr>fr_session = sid, fr_preferences = length new_preferences,
                   fr_traits = length trait_observations, fr_identity = identity2\<rparr>, st1)))"

definition sleep_after_reflect ::
  "('d, 's, 't) sleep_deps \<Rightarrow> sleep_frame \<Rightarrow> 'd nexus \<Rightarrow> SleepSummary \<times> 'd nexus" where
  "sleep_after_reflect deps fr st1 =
     (let identity_reflection = reflect_on_self deps (fr_identity fr);
          identity3 = apply_understanding (fr_identity fr) identity_reflection;
          st2 = st1\<lparr>identity_file := Identity_save deps identity3\<rparr>;
          (new_curiosities, db2) = generate_emergence_curiosities deps identity3 (memory st2);
          st3 = st2\<lparr>memory := db2\<rparr>
      in (\<lparr>summary_session = fr_session fr,
            preferences_emerged = fr_preferences fr,
            traits_observed = fr_traits fr,
            curiosities_generated = length new_curiosities,
            identity_updated = True\<rparr>, st3))"

section \<open>The curiosity state machine of the specification\<close>

text \<open>
  The transitions the specification allows: pending to exploring, exploring to
  explored, exploring to pending (recovery) and exploring to abandoned (manual).
\<close>

fun allowed_transition :: "CuriosityStatus \<Rightarrow> CuriosityStatus \<Rightarrow> bool" where
  "allowed_transition PENDING EXPLORING = True"
| "allowed_transition EXPLORING EXPLORED = True"
| "allowed_transition EXPLORING PENDING = True"
| "allowed_transition EXPLORING ABANDONED = True"
| "allowed_transition _ _ = False"

section \<open>Example inputs\<close>

text \<open>A pending curiosity with a given id and priority.\<close>

definition pending_curiosity :: "string \<Rightarrow> real \<Rightarrow> Curiosity" where
  "pending_curiosity k p =
     \<lparr>cid = k, question = ''What is '' @ k @ ''?'', ctx = None, priority = p,
      status = PENDING, resolution = None\<rparr>"

definition empty_db :: memory_db where
  "empty_db = \<lparr>db_curiosities = [], db_nodes = [], db_choices = [], db_reflections = [],
               status_log = []\<rparr>"

text \<open>Two pending curiosities, of priorities 0.9 and 0.1.\<close>

definition two_pending :: memory_db where
  "two_pending = empty_db\<lparr>db_curiosities :=
     [pending_curiosity ''q1'' 0.9, pending_curiosity ''q2'' 0.1]\<rparr>"

text \<open>Eleven pending curiosities; the last has the highest priority.\<close>

definition eleven_pending :: memory_db where
  "eleven_pending = empty_db\<lparr>db_curiosities :=
     [pending_curiosity ''a'' 0.5, pending_curiosity ''b'' 0.5, pending_curiosity ''c'' 0.5,
      pending_curiosity ''d'' 0.5, pending_curiosity ''e'' 0.5, pending_curiosity ''f'' 0.5,
      pending_curiosity ''g'' 0.5, pending_curiosity ''h'' 0.5, pending_curiosity ''i'' 0.5,
      pending_curiosity ''j'' 0.5, pending_curiosity ''k'' 1.0]\<rparr>"

text \<open>A pending curiosity next to an explored and an abandoned one.\<close>

definition with_terminal :: memory_db where
  "with_terminal = empty_db\<lparr>db_curiosities :=
     [pending_curiosity ''q1'' 0.9,
      (pending_curiosity ''q3'' 0.8)\<lparr>status := EXPLORED, resolution := Some ''known''\<rparr>,
      (pending_curiosity ''q4'' 0.7)\<lparr>status := ABANDONED\<rparr>]\<rparr>"

text \<open>
  Random sources that always yield 0.5, or 0.99, and an id generator that yields a
  new id.
\<close>

definition rnd_half :: "nat \<Rightarrow> real" where
  "rnd_half k = 0.5"

definition rnd_high :: "nat \<Rightarrow> real" where
  "rnd_high k = 0.99"

definition longer_id :: "string list \<Rightarrow> string" where
  "longer_id ids = CHR ''n'' # concat ids"

text \<open>Three choices of the domain \<open>aesthetic\<close>, each choosing \<open>blue\<close>.\<close>

definition blue_choice :: "string \<Rightarrow> ChoiceRow" where
  "blue_choice k =
     \<lparr>choice_id = k, session_id = ''s1'', choice_context = ''colour'',
      options = [''blue'', ''red''], chosen = ''blue'', reasoning = None,
      domain_entry = Some (Some ''aesthetic'')\<rparr>"

definition three_blue :: "ChoiceRow list" where
  "three_blue = [blue_choice ''c1'', blue_choice ''c2'', blue_choice ''c3'']"

text \<open>
  A pattern detector for the examples: the value chosen first, with the number of
  choices that chose it.
\<close>

definition detect_first_chosen :: "ChoiceRow list \<Rightarrow> Pattern list" where
  "detect_first_chosen cs =
     (case cs of [] \<Rightarrow> []
      | c # _ \<Rightarrow> [\<lparr>description = chosen c,
                    pcount = int (length (filter (\<lambda>x. chosen x = chosen c) cs)),
                    examples = map choice_id cs\<rparr>])"

text \<open>
  Collaborators for the examples: every session yields one trait observation, its
  own id, which \<open>update_trait\<close> records as a nascent trait.
\<close>

definition observed_trait :: "string \<Rightarrow> DiscoveredTrait" where
  "observed_trait sid =
     \<lparr>trait = ''seen in '' @ sid, trait_confidence = NASCENT, first_observed = 0,
      evidence = [sid], counter_evidence = []\<rparr>"

definition example_deps :: "(Identity, unit, string) sleep_deps" where
  "example_deps =
     \<lparr>from_dict = Inr, to_dict = (\<lambda>i. i),
      session_reflections = (\<lambda>sid data. []),
      detect_patterns = detect_first_chosen,
      analyze_for_traits = (\<lambda>sid db. [sid]),
      update_trait = (\<lambda>i t. i\<lparr>discovered_traits := discovered_traits i @ [observed_trait t]\<rparr>),
      reflect_on_self = reflect_on_self_placeholder,
      emergence_curiosities = (\<lambda>i db. [])\<rparr>"

text \<open>The seed identity on file, an empty database but for the three choices.\<close>

definition seed_state :: "Identity nexus" where
  "seed_state = \<lparr>identity_file = Some seed_identity, memory = empty_db\<rparr>"

text \<open>
  States for \<open>wake\<close>: no identity file, and the seed document on file (a document is
  written as the identity it describes), each with an empty database.
\<close>

definition no_identity_state :: "Identity option nexus" where
  "no_identity_state = \<lparr>identity_file = None, memory = empty_db\<rparr>"

definition seed_file_state :: "Identity option nexus" where
  "seed_file_state = \<lparr>identity_file = Some (Some seed_identity), memory = empty_db\<rparr>"

text \<open>
  The frame of a \<open>sleep\<close> for session \<open>s1\<close> that started in \<open>seed_state\<close> and is
  suspended at \<open>_reflect_on_self\<close>.
\<close>

definition frame_s1 :: sleep_frame where
  "frame_s1 =
     \<lparr>fr_session = ''s1'', fr_preferences = 0, fr_traits = 1,
      fr_identity = seed_identity\<lparr>discovered_traits := [observed_trait ''s1'']\<rparr>\<rparr>"

text \<open>The same choices, with \<open>red\<close> already crystallized for the domain \<open>aesthetic\<close>.\<close>

definition red_state :: "Identity nexus" where
  "red_state =
     \<lparr>identity_file =
        Some (seed_identity\<lparr>emerged_preferences := [Some ''aesthetic'' \<mapsto> ''red'']\<rparr>),
      memory = empty_db\<lparr>db_choices := three_blue\<rparr>\<rparr>"

section \<open>Selection is total on non-empty input\<close>

lemma length_weights_from: "length (weights_from rnd k cs) = length cs"
  by (induction cs arbitrary: k) simp_all

lemma scan_weights_bound:
  "scan_weights r cumulative i ws = Some j \<Longrightarrow> i \<le> j \<and> j < i + length ws"
proof (induction ws arbitrary: cumulative i)
  case Nil
  then show ?case by simp
next
  case (Cons w ws)
  show ?case
  proof (cases "r \<le> cumulative + w")
    case True
    with Cons.prems show ?thesis by simp
  next
    case False
    with Cons.prems have "scan_weights r (cumulative + w) (Suc i) ws = Some j" by simp
    from Cons.IH [OF this] show ?thesis by simp
  qed
qed

lemma weighted_select_cases:
  assumes "curiosities \<noteq> []"
  shows "(\<exists>i < length curiosities. weighted_select rnd curiosities = Inr (curiosities ! i))
         \<or> weighted_select rnd curiosities = Inr (last curiosities)"
proof (cases "scan_weights (rnd (length curiosities) * sum_list (weights_from rnd 0 curiosities))
                0 0 (weights_from rnd 0 curiosities)")
  case None
  with assms show ?thesis
    by (simp add: weighted_select_def py_last_def split: list.splits)
next
  case (Some j)
  from scan_weights_bound [OF Some] have "j < length curiosities"
    by (simp add: length_weights_from)
  with Some show ?thesis
    by (auto simp: weighted_select_def py_index_def)
qed

lemma weighted_select_member:
  assumes "curiosities \<noteq> []"
  obtains c where "weighted_select rnd curiosities = Inr c" and "c \<in> set curiosities"
  using weighted_select_cases [OF assms, of rnd] assms
  by (metis last_in_set nth_mem)

text \<open>
  C9. For every non-empty list of curiosities and every sequence of values of the
  random source, \<open>_weighted_select\<close> returns an element of its input: either the
  element at the index where the cumulative scan stops, which is in range, or the
  last element. No \<open>IndexError\<close> is raised.
\<close>

theorem weighted_select_total:
  "curiosities \<noteq> [] \<Longrightarrow>
     \<exists>c. weighted_select rnd curiosities = Inr c \<and> c \<in> set curiosities \<and>
         ((\<exists>i < length curiosities. c = curiosities ! i) \<or> c = last curiosities)"
proof -
  assume ne: "curiosities \<noteq> []"
  from weighted_select_cases [OF ne, of rnd] show ?thesis
  proof
    assume "\<exists>i < length curiosities. weighted_select rnd curiosities = Inr (curiosities ! i)"
    then obtain i where "i < length curiosities"
      and "weighted_select rnd curiosities = Inr (curiosities ! i)" by blast
    then show ?thesis by auto
  next
    assume "weighted_select rnd curiosities = Inr (last curiosities)"
    with ne show ?thesis by simp
  qed
qed


theorem weighted_select_total_witness:
  "db_curiosities two_pending \<noteq> [] \<and>
   weighted_select rnd_half (db_curiosities two_pending) = Inr (pending_curiosity ''q1'' 0.9) \<and>
   pending_curiosity ''q1'' 0.9 \<in> set (db_curiosities two_pending)"
  using weighted_select_total [of "db_curiosities two_pending" rnd_half]
  by (simp add: two_pending_def empty_db_def weighted_select_def py_index_def rnd_half_def
      pending_curiosity_def)

text \<open>On the empty list the final \<open>curiosities[-1]\<close> raises.\<close>

lemma weighted_select_empty: "weighted_select rnd [] = Inl IndexError"
  by (simp add: weighted_select_def py_last_def)

text \<open>
  Which curiosity is selected depends on the values of the random source: of the two
  curiosities of priorities 0.9 and 0.1, the source that always yields 0.5 selects the
  first and the source that always yields 0.99 selects the second.
\<close>

lemma weighted_select_rnd_half:
  "weighted_select rnd_half (db_curiosities two_pending) = Inr (pending_curiosity ''q1'' 0.9)"
  by (simp add: two_pending_def empty_db_def weighted_select_def py_index_def rnd_half_def
      pending_curiosity_def)

lemma weighted_select_rnd_high:
  "weighted_select rnd_high (db_curiosities two_pending) = Inr (pending_curiosity ''q2'' 0.1)"
  by (simp add: two_pending_def empty_db_def weighted_select_def py_index_def rnd_high_def
      pending_curiosity_def)

text \<open>
  With draws in \<open>[0, 1)\<close>, every weight is the priority plus a jitter in \<open>[0, 0.3)\<close>.
\<close>

lemma weights_from_jitter:
  assumes "\<forall>k. 0 \<le> rnd k \<and> rnd k < 1"
  shows "list_all2 (\<lambda>c w. priority c \<le> w \<and> w < priority c + 0.3) cs (weights_from rnd k cs)"
  using assms by (induction cs arbitrary: k) simp_all

section \<open>Facts about the store operations\<close>

lemma foldl_log_choice [simp]: "foldl log_choice db cs = db"
  by (induction cs) (simp_all add: log_choice_def)

lemma update_curiosity_fields [simp]:
  "db_nodes (update_curiosity db c) = db_nodes db"
  "db_choices (update_curiosity db c) = db_choices db"
  "db_reflections (update_curiosity db c) = db_reflections db"
  by (simp_all add: update_curiosity_def)

lemma log_insights_keeps:
  "log_insights c is db = (e, db') \<Longrightarrow>
     db_curiosities db' = db_curiosities db \<and> status_log db' = status_log db
     \<and> db_choices db' = db_choices db \<and> db_reflections db' = db_reflections db"
proof (induction "is" arbitrary: db)
  case Nil
  then show ?case by simp
next
  case (Cons i "is")
  show ?case
  proof (cases "create_node db (insight_node c i)")
    case (Inl err)
    with Cons.prems show ?thesis by simp
  next
    case (Inr db1)
    then have eq: "db_curiosities db1 = db_curiosities db \<and> status_log db1 = status_log db
        \<and> db_choices db1 = db_choices db \<and> db_reflections db1 = db_reflections db"
      by (auto simp: create_node_def split: if_splits)
    from Cons.prems Inr have "log_insights c is db1 = (e, db')" by simp
    from Cons.IH [OF this] eq show ?thesis by simp
  qed
qed

lemma create_follow_ups_log [simp]:
  "status_log (create_follow_ups gen_id c qs db) = status_log db"
  by (induction qs arbitrary: db) (simp_all add: create_curiosity_def)

lemma create_follow_ups_curiosities:
  "\<exists>new. db_curiosities (create_follow_ups gen_id c qs db) = db_curiosities db @ new
        \<and> (\<forall>x \<in> set new. status x = PENDING)"
proof (induction qs arbitrary: db)
  case Nil
  then show ?case by simp
next
  case (Cons q qs)
  let ?db1 = "create_curiosity db (follow_up gen_id db c q)"
  from Cons.IH [of ?db1] obtain new where
    "db_curiosities (create_follow_ups gen_id c qs ?db1) = db_curiosities ?db1 @ new"
    "\<forall>x \<in> set new. status x = PENDING" by blast
  then show ?case
    by (intro exI [of _ "follow_up gen_id db c q # new"])
       (simp add: create_curiosity_def follow_up_def)
qed

lemma get_curiosities_pending:
  "c \<in> set (get_curiosities st limit db) \<Longrightarrow> c \<in> set (db_curiosities db) \<and> status c = st"
  by (auto simp: get_curiosities_def Let_def split: option.splits dest: in_set_takeD)

lemma filter_key_distinct:
  "distinct (map f xs) \<Longrightarrow> x \<in> set xs \<Longrightarrow> filter (\<lambda>y. f y = f x) xs = [x]"
proof (induction xs)
  case Nil
  then show ?case by simp
next
  case (Cons a xs)
  show ?case
  proof (cases "a = x")
    case True
    with Cons.prems have "\<forall>y \<in> set xs. f y \<noteq> f x" by (metis distinct.simps(2) image_eqI list.simps(9) list.set_map)
    then have "filter (\<lambda>y. f y = f x) xs = []" by (simp add: filter_empty_conv)
    with True show ?thesis by simp
  next
    case False
    with Cons.prems have "x \<in> set xs" and "f a \<noteq> f x" and "distinct (map f xs)" by auto
    with Cons.IH show ?thesis by simp
  qed
qed

lemma update_curiosity_log:
  assumes "distinct (map cid (db_curiosities db))" and "c \<in> set (db_curiosities db)"
    and "cid c' = cid c"
  shows "status_log (update_curiosity db c') =
           status_log db @ (if status c \<noteq> status c' then [(cid c, status c, status c')] else [])"
proof -
  have "filter (\<lambda>x. cid x = cid c' \<and> status x \<noteq> status c') (db_curiosities db)
          = filter (\<lambda>x. status x \<noteq> status c') (filter (\<lambda>x. cid x = cid c) (db_curiosities db))"
    using assms(3) by (simp add: conj_commute)
  also have "\<dots> = filter (\<lambda>x. status x \<noteq> status c') [c]"
    using filter_key_distinct [OF assms(1,2)] by simp
  finally show ?thesis by (simp add: update_curiosity_def)
qed

lemma update_curiosity_distinct:
  "cid c' = cid c \<Longrightarrow> c \<in> set (db_curiosities db) \<Longrightarrow>
     map cid (db_curiosities (update_curiosity db c')) = map cid (db_curiosities db)"
  by (simp add: update_curiosity_def comp_def cong: map_cong)

lemma update_curiosity_ids:
  "map cid (db_curiosities (update_curiosity db c)) = map cid (db_curiosities db)"
  by (induction "db_curiosities db") (auto simp: update_curiosity_def)

lemma update_curiosity_member:
  "c \<in> set (db_curiosities db) \<Longrightarrow> cid c' = cid c \<Longrightarrow> c' \<in> set (db_curiosities (update_curiosity db c'))"
  by (force simp: update_curiosity_def)

lemma update_curiosity_others:
  "x \<in> set (db_curiosities db) \<Longrightarrow> cid x \<noteq> cid c \<Longrightarrow> x \<in> set (db_curiosities (update_curiosity db c))"
  by (force simp: update_curiosity_def)

lemma update_curiosity_log_general:
  "\<exists>new. status_log (update_curiosity db c) = status_log db @ new
         \<and> (\<forall>(k, a, b) \<in> set new. k = cid c \<and> b = status c)"
  by (auto simp: update_curiosity_def)

lemma length_le_concat: "x \<in> set xs \<Longrightarrow> length x \<le> length (concat xs)"
  by (induction xs) auto

lemma longer_id_fresh: "longer_id ids \<notin> set ids"
proof
  assume "longer_id ids \<in> set ids"
  from length_le_concat [OF this] show False by (simp add: longer_id_def)
qed

lemma create_follow_ups_distinct:
  assumes "\<forall>ids. gen_id ids \<notin> set ids"
  shows "distinct (map cid (db_curiosities db)) \<Longrightarrow>
         distinct (map cid (db_curiosities (create_follow_ups gen_id c qs db)))"
proof (induction qs arbitrary: db)
  case Nil
  then show ?case by simp
next
  case (Cons q qs)
  let ?db1 = "create_curiosity db (follow_up gen_id db c q)"
  have "distinct (map cid (db_curiosities ?db1))"
  proof -
    have "gen_id (map cid (db_curiosities db)) \<notin> set (map cid (db_curiosities db))"
      using assms by blast
    with Cons.prems show ?thesis by (simp add: create_curiosity_def follow_up_def)
  qed
  from Cons.IH [OF this] show ?case by simp
qed

lemma create_follow_ups_keeps:
  "x \<in> set (db_curiosities db) \<Longrightarrow> x \<in> set (db_curiosities (create_follow_ups gen_id c qs db))"
  using create_follow_ups_curiosities [of gen_id c qs db] by auto

section \<open>The runs of explore_one\<close>

lemma explore_one_none:
  "get_curiosities PENDING (Some 10) db = [] \<Longrightarrow> explore_one rnd gen_id ex db = (Inr NoCuriosities, db)"
  by (simp add: explore_one_def)

lemma explore_one_collaborator_error:
  assumes "get_curiosities PENDING (Some 10) db \<noteq> []"
    and "weighted_select rnd (get_curiosities PENDING (Some 10) db) = Inr c"
    and "ex (c\<lparr>status := EXPLORING\<rparr>) = Inl e"
  shows "explore_one rnd gen_id ex db = (Inl e, update_curiosity db (c\<lparr>status := EXPLORING\<rparr>))"
  using assms by (simp add: explore_one_def)

lemma explore_one_insight_error:
  assumes "get_curiosities PENDING (Some 10) db \<noteq> []"
    and "weighted_select rnd (get_curiosities PENDING (Some 10) db) = Inr c"
    and "ex (c\<lparr>status := EXPLORING\<rparr>) = Inr r"
    and "log_insights (c\<lparr>status := EXPLORING\<rparr>) (insights r)
           (update_curiosity db (c\<lparr>status := EXPLORING\<rparr>)) = (Some e, db2)"
  shows "explore_one rnd gen_id ex db = (Inl e, db2)"
  using assms by (simp add: explore_one_def)

lemma explore_one_explored:
  assumes "get_curiosities PENDING (Some 10) db \<noteq> []"
    and "weighted_select rnd (get_curiosities PENDING (Some 10) db) = Inr c"
    and "ex (c\<lparr>status := EXPLORING\<rparr>) = Inr r"
    and "log_insights (c\<lparr>status := EXPLORING\<rparr>) (insights r)
           (update_curiosity db (c\<lparr>status := EXPLORING\<rparr>)) = (None, db2)"
  shows "explore_one rnd gen_id ex db =
           (Inr (ExploredSummary (question c) (length (insights r)) (length (new_questions r))
                   (conclusion r)),
            update_curiosity
              (create_follow_ups gen_id (c\<lparr>status := EXPLORING\<rparr>) (new_questions r) db2)
              (c\<lparr>status := EXPLORED, resolution := conclusion r\<rparr>))"
  using assms by (simp add: explore_one_def)

lemma explore_one_runs:
  fixes rnd gen_id ex db
  defines "window \<equiv> get_curiosities PENDING (Some 10) db"
  obtains
    (none) "window = []" "explore_one rnd gen_id ex db = (Inr NoCuriosities, db)"
  | (collaborator_error) c e where
      "c \<in> set window" "weighted_select rnd window = Inr c"
      "ex (c\<lparr>status := EXPLORING\<rparr>) = Inl e"
      "explore_one rnd gen_id ex db = (Inl e, update_curiosity db (c\<lparr>status := EXPLORING\<rparr>))"
  | (insight_error) c r e db2 where
      "c \<in> set window" "weighted_select rnd window = Inr c"
      "ex (c\<lparr>status := EXPLORING\<rparr>) = Inr r"
      "log_insights (c\<lparr>status := EXPLORING\<rparr>) (insights r)
         (update_curiosity db (c\<lparr>status := EXPLORING\<rparr>)) = (Some e, db2)"
      "explore_one rnd gen_id ex db = (Inl e, db2)"
  | (explored) c r db2 where
      "c \<in> set window" "weighted_select rnd window = Inr c"
      "ex (c\<lparr>status := EXPLORING\<rparr>) = Inr r"
      "log_insights (c\<lparr>status := EXPLORING\<rparr>) (insights r)
         (update_curiosity db (c\<lparr>status := EXPLORING\<rparr>)) = (None, db2)"
      "explore_one rnd gen_id ex db =
         (Inr (ExploredSummary (question c) (length (insights r)) (length (new_questions r))
                 (conclusion r)),
          update_curiosity
            (create_follow_ups gen_id (c\<lparr>status := EXPLORING\<rparr>) (new_questions r) db2)
            (c\<lparr>status := EXPLORED, resolution := conclusion r\<rparr>))"
proof (cases "window = []")
  case True
  with none show ?thesis by (simp add: window_def explore_one_none)
next
  case False
  then obtain c where sel: "weighted_select rnd window = Inr c" and mem: "c \<in> set window"
    by (rule weighted_select_member)
  show ?thesis
  proof (cases "ex (c\<lparr>status := EXPLORING\<rparr>)")
    case (Inl e)
    show ?thesis
      using collaborator_error [OF mem sel Inl]
        explore_one_collaborator_error [where ex = ex and gen_id = gen_id, OF False [unfolded window_def] sel [unfolded window_def] Inl]
      by blast
  next
    case (Inr r)
    obtain err db2 where li: "log_insights (c\<lparr>status := EXPLORING\<rparr>) (insights r)
         (update_curiosity db (c\<lparr>status := EXPLORING\<rparr>)) = (err, db2)"
      by (cases "log_insights (c\<lparr>status := EXPLORING\<rparr>) (insights r)
         (update_curiosity db (c\<lparr>status := EXPLORING\<rparr>))") blast
    show ?thesis
    proof (cases err)
      case None
      show ?thesis
        using explored [OF mem sel Inr li [unfolded None]]
          explore_one_explored [where ex = ex and gen_id = gen_id, OF False [unfolded window_def] sel [unfolded window_def] Inr
            li [unfolded None]]
        by blast
    next
      case (Some e)
      show ?thesis
        using insight_error [OF mem sel Inr li [unfolded Some]]
          explore_one_insight_error [where ex = ex and gen_id = gen_id, OF False [unfolded window_def] sel [unfolded window_def] Inr
            li [unfolded Some]]
        by blast
    qed
  qed
qed

lemma explore_one_log_ids:
  "\<exists>new. status_log (snd (explore_one rnd gen_id ex db)) = status_log db @ new
     \<and> (\<forall>(k, a, b) \<in> set new.
           \<exists>c \<in> set (get_curiosities PENDING (Some 10) db).
             weighted_select rnd (get_curiosities PENDING (Some 10) db) = Inr c
             \<and> k = cid c \<and> (b = EXPLORING \<or> b = EXPLORED))"
proof (cases rule: explore_one_runs [where rnd = rnd and db = db and gen_id = gen_id and ex = ex])
  case none
  then show ?thesis by simp
next
  case (collaborator_error c e)
  with update_curiosity_log_general [of db "c\<lparr>status := EXPLORING\<rparr>"]
  show ?thesis by fastforce
next
  case (insight_error c r e db2)
  from log_insights_keeps [OF insight_error(4)]
  have "status_log db2 = status_log (update_curiosity db (c\<lparr>status := EXPLORING\<rparr>))" by simp
  with insight_error update_curiosity_log_general [of db "c\<lparr>status := EXPLORING\<rparr>"]
  show ?thesis by fastforce
next
  case (explored c r db2)
  let ?c1 = "c\<lparr>status := EXPLORING\<rparr>"
  let ?c2 = "c\<lparr>status := EXPLORED, resolution := conclusion r\<rparr>"
  let ?db4 = "create_follow_ups gen_id ?c1 (new_questions r) db2"
  from log_insights_keeps [OF explored(4)]
  have l2: "status_log db2 = status_log (update_curiosity db ?c1)" by simp
  from update_curiosity_log_general [of db ?c1] obtain n1 where
    n1: "status_log (update_curiosity db ?c1) = status_log db @ n1"
        "\<forall>(k, a, b) \<in> set n1. k = cid ?c1 \<and> b = status ?c1" by blast
  from update_curiosity_log_general [of ?db4 ?c2] obtain n2 where
    n2: "status_log (update_curiosity ?db4 ?c2) = status_log ?db4 @ n2"
        "\<forall>(k, a, b) \<in> set n2. k = cid ?c2 \<and> b = status ?c2" by blast
  have "status_log (snd (explore_one rnd gen_id ex db)) = status_log db @ (n1 @ n2)"
    using explored(5) n1(1) n2(1) l2 by simp
  moreover have "\<forall>(k, a, b) \<in> set (n1 @ n2). k = cid c \<and> (b = EXPLORING \<or> b = EXPLORED)"
    using n1(2) n2(2) by auto
  ultimately show ?thesis using explored(1,2) by blast
qed

lemma explore_one_keeps_others:
  assumes "x \<in> set (db_curiosities db)"
    and "\<And>c. weighted_select rnd (get_curiosities PENDING (Some 10) db) = Inr c \<Longrightarrow> cid c \<noteq> cid x"
  shows "x \<in> set (db_curiosities (snd (explore_one rnd gen_id ex db)))"
proof (cases rule: explore_one_runs [where rnd = rnd and db = db and gen_id = gen_id and ex = ex])
  case none
  with assms(1) show ?thesis by simp
next
  case (collaborator_error c e)
  have "cid x \<noteq> cid (c\<lparr>status := EXPLORING\<rparr>)"
    using assms(2) [OF collaborator_error(2)] by simp
  from update_curiosity_others [OF assms(1) this] collaborator_error(4)
  show ?thesis by simp
next
  case (insight_error c r e db2)
  have "cid x \<noteq> cid (c\<lparr>status := EXPLORING\<rparr>)"
    using assms(2) [OF insight_error(2)] by simp
  from update_curiosity_others [OF assms(1) this] log_insights_keeps [OF insight_error(4)]
    insight_error(5)
  show ?thesis by simp
next
  case (explored c r db2)
  let ?c1 = "c\<lparr>status := EXPLORING\<rparr>"
  let ?c2 = "c\<lparr>status := EXPLORED, resolution := conclusion r\<rparr>"
  have ne: "cid x \<noteq> cid ?c1" "cid x \<noteq> cid ?c2"
    using assms(2) [OF explored(2)] by simp_all
  have "x \<in> set (db_curiosities (update_curiosity db ?c1))"
    by (rule update_curiosity_others [OF assms(1) ne(1)])
  then have "x \<in> set (db_curiosities db2)"
    using log_insights_keeps [OF explored(4)] by simp
  then have "x \<in> set (db_curiosities (create_follow_ups gen_id ?c1 (new_questions r) db2))"
    by (rule create_follow_ups_keeps)
  from update_curiosity_others [OF this ne(2)] explored(5)
  show ?thesis by simp
qed

lemma distinct_map_same_key:
  "distinct (map f xs) \<Longrightarrow> x \<in> set xs \<Longrightarrow> y \<in> set xs \<Longrightarrow> f x = f y \<Longrightarrow> x = y"
  by (meson distinct_map inj_on_def)

lemma window_not_beyond:
  assumes "distinct (map cid (db_curiosities db))"
    and "x \<in> set (drop 10 (filter (\<lambda>c. status c = PENDING) (db_curiosities db)))"
    and "c \<in> set (get_curiosities PENDING (Some 10) db)"
  shows "cid c \<noteq> cid x"
proof
  let ?p = "filter (\<lambda>c. status c = PENDING) (db_curiosities db)"
  assume eq: "cid c = cid x"
  have d: "distinct (map cid ?p)" using assms(1) by (rule distinct_map_filter)
  have c: "c \<in> set (take 10 ?p)" using assms(3) by (simp add: get_curiosities_def)
  have "c \<in> set ?p" "x \<in> set ?p" using c assms(2) by (auto dest: in_set_takeD in_set_dropD)
  with d eq have "c = x" by (blast intro: distinct_map_same_key)
  moreover have "distinct ?p" using d by (simp add: distinct_map)
  then have "set (take 10 ?p) \<inter> set (drop 10 ?p) = {}" by (rule set_take_disj_set_drop_if_distinct) simp
  ultimately show False using c assms(2) by blast
qed

section \<open>The selection window of explore_one\<close>

text \<open>
  C10. Each exploration cycle considers only the first 10 pending curiosities the
  store returns (\<open>limit=10\<close>). With ids as keys, a pending curiosity \<open>x\<close> beyond the
  first ten is never the one selected, whatever its priority and whatever the random
  source yields: the cycle leaves it stored as it was and changes the status of no
  curiosity with its id.
\<close>

theorem explore_one_first_ten:
  assumes "distinct (map cid (db_curiosities db))"
    and "x \<in> set (drop 10 (filter (\<lambda>c. status c = PENDING) (db_curiosities db)))"
  shows "weighted_select rnd (get_curiosities PENDING (Some 10) db) \<noteq> Inr x
       \<and> x \<in> set (db_curiosities (snd (explore_one rnd gen_id ex db)))
       \<and> (\<forall>(k, a, b) \<in> set (drop (length (status_log db))
                                 (status_log (snd (explore_one rnd gen_id ex db)))). k \<noteq> cid x)"
proof -
  let ?w = "get_curiosities PENDING (Some 10) db"
  have sel: "cid c \<noteq> cid x" if "weighted_select rnd ?w = Inr c" for c
  proof (cases "?w = []")
    case True
    with that show ?thesis by (simp add: weighted_select_def py_last_def)
  next
    case False
    from weighted_select_member [OF False, of rnd] that have "c \<in> set ?w" by auto
    with assms show ?thesis by (rule window_not_beyond)
  qed
  have "x \<in> set (db_curiosities db)" using assms(2) by (auto dest: in_set_dropD)
  then have keep: "x \<in> set (db_curiosities (snd (explore_one rnd gen_id ex db)))"
    using sel by (rule explore_one_keeps_others)
  from explore_one_log_ids [of rnd gen_id ex db] obtain new where
    new: "status_log (snd (explore_one rnd gen_id ex db)) = status_log db @ new"
      "\<forall>(k, a, b) \<in> set new. \<exists>c \<in> set ?w. weighted_select rnd ?w = Inr c
             \<and> k = cid c \<and> (b = EXPLORING \<or> b = EXPLORED)" by blast
  have "\<forall>(k, a, b) \<in> set new. k \<noteq> cid x" using new(2) sel by fastforce
  with new(1) keep sel show ?thesis by auto
qed

theorem explore_one_first_ten_witness:
  "distinct (map cid (db_curiosities eleven_pending))
   \<and> pending_curiosity ''k'' 1.0
        \<in> set (drop 10 (filter (\<lambda>c. status c = PENDING) (db_curiosities eleven_pending)))
   \<and> weighted_select rnd_half (get_curiosities PENDING (Some 10) eleven_pending)
        \<noteq> Inr (pending_curiosity ''k'' 1.0)
   \<and> pending_curiosity ''k'' 1.0
        \<in> set (db_curiosities (snd (explore_one rnd_half longer_id explore_curiosity_placeholder
                                       eleven_pending)))"
  using explore_one_first_ten [of eleven_pending "pending_curiosity ''k'' 1.0" rnd_half longer_id
      explore_curiosity_placeholder]
  by (simp add: eleven_pending_def empty_db_def pending_curiosity_def)

lemma weighted_select_Inr_member:
  assumes "weighted_select rnd cs = Inr c"
  shows "c \<in> set cs"
proof (cases "cs = []")
  case True
  with assms show ?thesis by (simp add: weighted_select_def py_last_def)
next
  case False
  from weighted_select_member [OF False, of rnd] assms show ?thesis by auto
qed

lemma update_curiosity_same_key:
  "x \<in> set (db_curiosities (update_curiosity db c)) \<Longrightarrow> cid x = cid c \<Longrightarrow> x = c"
  by (auto simp: update_curiosity_def split: if_splits)

lemma selected_is_stored_pending:
  assumes "weighted_select rnd (get_curiosities PENDING (Some 10) db) = Inr c"
  shows "c \<in> set (db_curiosities db) \<and> status c = PENDING"
  using weighted_select_Inr_member [OF assms] by (rule get_curiosities_pending)

lemma explore_one_log_distinct:
  assumes d: "distinct (map cid (db_curiosities db))" and fresh: "\<forall>ids. gen_id ids \<notin> set ids"
  shows "\<exists>new. status_log (snd (explore_one rnd gen_id ex db)) = status_log db @ new
           \<and> (new = [] \<or> (\<exists>k. new = [(k, PENDING, EXPLORING)])
                \<or> (\<exists>k. new = [(k, PENDING, EXPLORING), (k, EXPLORING, EXPLORED)]))"
proof (cases rule: explore_one_runs [where rnd = rnd and db = db and gen_id = gen_id and ex = ex])
  case none
  then show ?thesis by simp
next
  case (collaborator_error c e)
  from selected_is_stored_pending [OF collaborator_error(2)]
  have c: "c \<in> set (db_curiosities db)" "status c = PENDING" by simp_all
  from update_curiosity_log [OF d c(1), of "c\<lparr>status := EXPLORING\<rparr>"] c(2) collaborator_error(4)
  show ?thesis by simp
next
  case (insight_error c r e db2)
  from selected_is_stored_pending [OF insight_error(2)]
  have c: "c \<in> set (db_curiosities db)" "status c = PENDING" by simp_all
  from update_curiosity_log [OF d c(1), of "c\<lparr>status := EXPLORING\<rparr>"] c(2)
    log_insights_keeps [OF insight_error(4)] insight_error(5)
  show ?thesis by simp
next
  case (explored c r db2)
  let ?c1 = "c\<lparr>status := EXPLORING\<rparr>"
  let ?c2 = "c\<lparr>status := EXPLORED, resolution := conclusion r\<rparr>"
  let ?db1 = "update_curiosity db ?c1"
  let ?db4 = "create_follow_ups gen_id ?c1 (new_questions r) db2"
  from selected_is_stored_pending [OF explored(2)]
  have c: "c \<in> set (db_curiosities db)" "status c = PENDING" by simp_all
  have l1: "status_log ?db1 = status_log db @ [(cid c, PENDING, EXPLORING)]"
    using update_curiosity_log [OF d c(1), of ?c1] c(2) by simp
  have keep: "db_curiosities db2 = db_curiosities ?db1" "status_log db2 = status_log ?db1"
    using log_insights_keeps [OF explored(4)] by simp_all
  have "distinct (map cid (db_curiosities db2))"
    using d keep(1) by (simp add: update_curiosity_ids)
  then have d4: "distinct (map cid (db_curiosities ?db4))"
    by (rule create_follow_ups_distinct [OF fresh])
  have "?c1 \<in> set (db_curiosities ?db1)"
    by (rule update_curiosity_member [OF c(1)]) simp
  then have "?c1 \<in> set (db_curiosities db2)" using keep(1) by simp
  then have c4: "?c1 \<in> set (db_curiosities ?db4)" by (rule create_follow_ups_keeps)
  have "status_log (update_curiosity ?db4 ?c2) = status_log ?db4 @ [(cid c, EXPLORING, EXPLORED)]"
    using update_curiosity_log [OF d4 c4, of ?c2] by simp
  with l1 keep(2) explored(5) show ?thesis by simp
qed

lemma explore_one_keeps_terminal:
  assumes d: "distinct (map cid (db_curiosities db))"
    and x: "x \<in> set (db_curiosities db)" "status x \<noteq> PENDING"
  shows "x \<in> set (db_curiosities (snd (explore_one rnd gen_id ex db)))"
proof (rule explore_one_keeps_others [OF x(1)])
  fix c
  assume "weighted_select rnd (get_curiosities PENDING (Some 10) db) = Inr c"
  from selected_is_stored_pending [OF this]
  have c: "c \<in> set (db_curiosities db)" "status c = PENDING" by simp_all
  show "cid c \<noteq> cid x"
  proof
    assume "cid c = cid x"
    with d c(1) x(1) have "c = x" by (blast intro: distinct_map_same_key)
    with c(2) x(2) show False by simp
  qed
qed

section \<open>Status changes of explore_one\<close>

text \<open>
  C4. Every status change that \<open>explore_one\<close> writes follows the state machine of the
  specification. With ids as keys and an id generator that yields new ids, one call
  writes no change, or pending to exploring for one curiosity, or pending to exploring
  followed by exploring to explored for the same curiosity; never pending to explored
  directly. A curiosity stored as explored or abandoned is left as it is.
\<close>

theorem explore_one_state_machine:
  assumes "distinct (map cid (db_curiosities db))" and "\<forall>ids. gen_id ids \<notin> set ids"
  shows "\<exists>new. status_log (snd (explore_one rnd gen_id ex db)) = status_log db @ new
      \<and> (\<forall>(k, a, b) \<in> set new. allowed_transition a b)
      \<and> (new = [] \<or> (\<exists>k. new = [(k, PENDING, EXPLORING)])
           \<or> (\<exists>k. new = [(k, PENDING, EXPLORING), (k, EXPLORING, EXPLORED)]))
      \<and> (\<forall>x \<in> set (db_curiosities db). status x = EXPLORED \<or> status x = ABANDONED \<longrightarrow>
             x \<in> set (db_curiosities (snd (explore_one rnd gen_id ex db))))"
proof -
  from explore_one_log_distinct [OF assms, of rnd ex] obtain new where
    new: "status_log (snd (explore_one rnd gen_id ex db)) = status_log db @ new"
      "new = [] \<or> (\<exists>k. new = [(k, PENDING, EXPLORING)])
         \<or> (\<exists>k. new = [(k, PENDING, EXPLORING), (k, EXPLORING, EXPLORED)])" by blast
  from new(2) have "\<forall>(k, a, b) \<in> set new. allowed_transition a b" by auto
  moreover have "\<forall>x \<in> set (db_curiosities db). status x = EXPLORED \<or> status x = ABANDONED \<longrightarrow>
             x \<in> set (db_curiosities (snd (explore_one rnd gen_id ex db)))"
    using explore_one_keeps_terminal [OF assms(1)] by auto
  ultimately show ?thesis using new by blast
qed

theorem explore_one_state_machine_witness:
  "status_log (snd (explore_one rnd_half longer_id explore_curiosity_placeholder with_terminal))
     = [(''q1'', PENDING, EXPLORING), (''q1'', EXPLORING, EXPLORED)]
   \<and> allowed_transition PENDING EXPLORING \<and> allowed_transition EXPLORING EXPLORED
   \<and> (pending_curiosity ''q4'' 0.7)\<lparr>status := ABANDONED\<rparr> \<in> set (db_curiosities with_terminal)
   \<and> (pending_curiosity ''q4'' 0.7)\<lparr>status := ABANDONED\<rparr>
        \<in> set (db_curiosities (snd (explore_one rnd_half longer_id explore_curiosity_placeholder
                                       with_terminal)))"
proof -
  have d: "distinct (map cid (db_curiosities with_terminal))"
    by (simp add: with_terminal_def empty_db_def pending_curiosity_def)
  have f: "\<forall>ids. longer_id ids \<notin> set ids" by (simp add: longer_id_fresh)
  show ?thesis
    using explore_one_state_machine [OF d f, of rnd_half explore_curiosity_placeholder]
    by (simp add: with_terminal_def empty_db_def pending_curiosity_def explore_one_def
        get_curiosities_def weighted_select_def py_index_def rnd_half_def update_curiosity_def
        explore_curiosity_placeholder_def)
qed

section \<open>An exploration that learns nothing\<close>

text \<open>
  C3, as stated, fails: with the placeholder collaborator, which returns no insights
  and no conclusion, the selected curiosity \<open>q1\<close> is stored as explored, not as
  pending.
\<close>

theorem explore_one_nothing_learned_counterexample:
  "explore_curiosity_placeholder ((pending_curiosity ''q1'' 0.9)\<lparr>status := EXPLORING\<rparr>)
     = Inr \<lparr>insights = [], result_choices = [], new_questions = [], conclusion = None\<rparr>
   \<and> map cid (db_curiosities two_pending) = [''q1'', ''q2'']
   \<and> map status (db_curiosities two_pending) = [PENDING, PENDING]
   \<and> fst (explore_one rnd_half longer_id explore_curiosity_placeholder two_pending)
        = Inr (ExploredSummary ''What is q1?'' 0 0 None)
   \<and> map cid (db_curiosities (snd (explore_one rnd_half longer_id explore_curiosity_placeholder
                                      two_pending))) = [''q1'', ''q2'']
   \<and> map status (db_curiosities (snd (explore_one rnd_half longer_id explore_curiosity_placeholder
                                         two_pending))) = [EXPLORED, PENDING]"
  by (simp add: two_pending_def empty_db_def pending_curiosity_def explore_one_def
      get_curiosities_def weighted_select_def py_index_def rnd_half_def update_curiosity_def
      explore_curiosity_placeholder_def)

text \<open>
  C3, amended. When there is a pending curiosity and the exploration collaborator
  returns no insights and no conclusion, \<open>explore_one\<close> returns the summary of an
  explored curiosity and stores the selected curiosity as explored, with resolution
  \<open>None\<close>; the statuses it writes are never pending and never abandoned.
\<close>

theorem explore_one_marks_explored:
  assumes "get_curiosities PENDING (Some 10) db \<noteq> []"
    and "\<forall>c. \<exists>r. ex c = Inr r \<and> insights r = [] \<and> conclusion r = None"
  shows "\<exists>c \<in> set (get_curiosities PENDING (Some 10) db). \<exists>n.
           weighted_select rnd (get_curiosities PENDING (Some 10) db) = Inr c
         \<and> fst (explore_one rnd gen_id ex db) = Inr (ExploredSummary (question c) 0 n None)
         \<and> c\<lparr>status := EXPLORED, resolution := None\<rparr>
              \<in> set (db_curiosities (snd (explore_one rnd gen_id ex db)))
         \<and> (\<forall>x \<in> set (db_curiosities (snd (explore_one rnd gen_id ex db))).
               cid x = cid c \<longrightarrow> status x = EXPLORED \<and> resolution x = None)
         \<and> (\<forall>(k, a, b) \<in> set (drop (length (status_log db))
                                   (status_log (snd (explore_one rnd gen_id ex db)))).
               b \<noteq> PENDING \<and> b \<noteq> ABANDONED)"
proof -
  have log: "\<forall>(k, a, b) \<in> set (drop (length (status_log db))
                                   (status_log (snd (explore_one rnd gen_id ex db)))).
               b \<noteq> PENDING \<and> b \<noteq> ABANDONED"
    using explore_one_log_ids [of rnd gen_id ex db] by fastforce
  show ?thesis
  proof (cases rule: explore_one_runs [where rnd = rnd and db = db and gen_id = gen_id and ex = ex])
    case none
    with assms(1) show ?thesis by simp
  next
    case (collaborator_error c e)
    from assms(2) obtain r where "ex (c\<lparr>status := EXPLORING\<rparr>) = Inr r" by blast
    with collaborator_error(3) show ?thesis by simp
  next
    case (insight_error c r e db2)
    from assms(2) obtain r' where "ex (c\<lparr>status := EXPLORING\<rparr>) = Inr r'" "insights r' = []"
      by blast
    with insight_error(3,4) show ?thesis by simp
  next
    case (explored c r db2)
    let ?c1 = "c\<lparr>status := EXPLORING\<rparr>"
    let ?c2 = "c\<lparr>status := EXPLORED, resolution := None\<rparr>"
    let ?db1 = "update_curiosity db ?c1"
    let ?db4 = "create_follow_ups gen_id ?c1 (new_questions r) db2"
    from assms(2) obtain r' where "ex ?c1 = Inr r'" "insights r' = []" "conclusion r' = None"
      by blast
    with explored(3) have r: "insights r = []" "conclusion r = None" by simp_all
    from selected_is_stored_pending [OF explored(2)]
    have c: "c \<in> set (db_curiosities db)" by simp
    have db2: "db2 = ?db1" using explored(4) r(1) by simp
    have "?c1 \<in> set (db_curiosities ?db1)"
      by (rule update_curiosity_member [OF c]) simp
    then have "?c1 \<in> set (db_curiosities ?db4)" unfolding db2 by (rule create_follow_ups_keeps)
    then have m: "?c2 \<in> set (db_curiosities (update_curiosity ?db4 ?c2))"
      by (rule update_curiosity_member) simp
    have same: "status x = EXPLORED \<and> resolution x = None"
      if "x \<in> set (db_curiosities (update_curiosity ?db4 ?c2))" "cid x = cid c" for x
    proof -
      from that have "x = ?c2" by (auto dest: update_curiosity_same_key)
      then show ?thesis by simp
    qed
    have res: "explore_one rnd gen_id ex db =
        (Inr (ExploredSummary (question c) 0 (length (new_questions r)) None),
         update_curiosity ?db4 ?c2)"
      using explored(5) r by simp
    show ?thesis
      using explored(1,2) log m same unfolding res by (intro bexI [of _ c] exI [of _ "length (new_questions r)"]) auto
  qed
qed

theorem explore_one_marks_explored_witness:
  "get_curiosities PENDING (Some 10) two_pending \<noteq> []
   \<and> fst (explore_one rnd_half longer_id explore_curiosity_placeholder two_pending)
        = Inr (ExploredSummary ''What is q1?'' 0 0 None)
   \<and> (pending_curiosity ''q1'' 0.9)\<lparr>status := EXPLORED, resolution := None\<rparr>
        \<in> set (db_curiosities (snd (explore_one rnd_half longer_id explore_curiosity_placeholder
                                       two_pending)))"
proof -
  have p: "get_curiosities PENDING (Some 10) two_pending \<noteq> []"
    by (simp add: two_pending_def empty_db_def pending_curiosity_def get_curiosities_def)
  have n: "\<forall>c. \<exists>r. explore_curiosity_placeholder c = Inr r \<and> insights r = [] \<and> conclusion r = None"
    by (simp add: explore_curiosity_placeholder_def)
  show ?thesis
    using explore_one_marks_explored [OF p n, of rnd_half longer_id]
    by (simp add: two_pending_def empty_db_def pending_curiosity_def explore_one_def
        get_curiosities_def weighted_select_def py_index_def rnd_half_def update_curiosity_def
        explore_curiosity_placeholder_def)
qed


section \<open>Preference emergence\<close>

lemma emit_patterns_eq:
  "emit_patterns m d ps emerged =
     emerged @ map (emerged_from d) (filter (\<lambda>p. m \<le> pcount p) ps)"
  by (induction ps arbitrary: emerged) simp_all

lemma emit_domains_eq:
  "emit_domains detect m groups emerged =
     emerged @ concat (map (\<lambda>(d, dcs). map (emerged_from d) (filter (\<lambda>p. m \<le> pcount p) (detect dcs)))
                        groups)"
  by (induction groups arbitrary: emerged) (auto simp: emit_patterns_eq)

lemma analyze_choices_eq:
  "analyze_choices detect m cs =
     concat (map (\<lambda>(d, dcs). map (emerged_from d) (filter (\<lambda>p. m \<le> pcount p) (detect dcs)))
               (group_by_domain cs))"
  by (simp add: analyze_choices_def emit_domains_eq)

lemma analyze_choices_member:
  "e \<in> set (analyze_choices detect m cs) \<longleftrightarrow>
     (\<exists>(d, dcs) \<in> set (group_by_domain cs). \<exists>p \<in> set (detect dcs). m \<le> pcount p \<and> e = emerged_from d p)"
  by (auto simp: analyze_choices_eq)

lemma emerged_from_confidence:
  "confidence (emerged_from d p) = min (real_of_int (evidence_count (emerged_from d p)) / 10) 1
   \<and> confidence (emerged_from d p) \<le> 1"
  by (simp add: emerged_from_def)

text \<open>
  C2. For every list of logged choices, every pattern detector and every
  \<open>min_occurrences\<close>, a pattern detected in a domain group is reported as a
  preference if and only if its count is at least \<open>min_occurrences\<close>; every reported
  preference comes from such a pattern, and its confidence is
  \<open>min (count / 10) 1\<close>, hence at most 1.
\<close>

theorem analyze_choices_threshold_confidence:
  "(\<forall>(d, dcs) \<in> set (group_by_domain cs). \<forall>p \<in> set (detect dcs).
      (emerged_from d p \<in> set (analyze_choices detect m cs)) = (m \<le> pcount p))
   \<and> (\<forall>e \<in> set (analyze_choices detect m cs).
        (\<exists>(d, dcs) \<in> set (group_by_domain cs). \<exists>p \<in> set (detect dcs). e = emerged_from d p)
        \<and> m \<le> evidence_count e
        \<and> confidence e = min (real_of_int (evidence_count e) / 10) 1
        \<and> confidence e \<le> 1)"
proof (intro conjI ballI)
  fix g assume g: "g \<in> set (group_by_domain cs)"
  show "case g of (d, dcs) \<Rightarrow> \<forall>p \<in> set (detect dcs).
          (emerged_from d p \<in> set (analyze_choices detect m cs)) = (m \<le> pcount p)"
  proof (cases g)
    case (Pair d dcs)
    have "(emerged_from d p \<in> set (analyze_choices detect m cs)) = (m \<le> pcount p)"
      if p: "p \<in> set (detect dcs)" for p
    proof
      assume "emerged_from d p \<in> set (analyze_choices detect m cs)"
      then obtain d' dcs' p' where "m \<le> pcount p'" "emerged_from d p = emerged_from d' p'"
        by (auto simp: analyze_choices_member)
      then have "m \<le> evidence_count (emerged_from d p)" by (simp add: emerged_from_def)
      then show "m \<le> pcount p" by (simp add: emerged_from_def)
    next
      assume "m \<le> pcount p"
      with g p Pair show "emerged_from d p \<in> set (analyze_choices detect m cs)"
        by (auto simp: analyze_choices_member)
    qed
    with Pair show ?thesis by simp
  qed
next
  fix e assume "e \<in> set (analyze_choices detect m cs)"
  then obtain d dcs p where *: "(d, dcs) \<in> set (group_by_domain cs)" "p \<in> set (detect dcs)"
    "m \<le> pcount p" "e = emerged_from d p"
    by (auto simp: analyze_choices_member)
  from * show "\<exists>(d, dcs) \<in> set (group_by_domain cs). \<exists>p \<in> set (detect dcs). e = emerged_from d p"
    by blast
  from * show "m \<le> evidence_count e" by (simp add: emerged_from_def)
  from * show "confidence e = min (real_of_int (evidence_count e) / 10) 1"
    by (simp add: emerged_from_def)
  from * show "confidence e \<le> 1" by (simp add: emerged_from_def)
qed

lemma group_three_blue: "group_by_domain three_blue = [(Some ''aesthetic'', three_blue)]"
  by (simp add: group_by_domain_def three_blue_def blue_choice_def choice_domain_def)

lemma detect_three_blue:
  "detect_first_chosen three_blue
     = [\<lparr>description = ''blue'', pcount = 3, examples = [''c1'', ''c2'', ''c3'']\<rparr>]"
  by (simp add: three_blue_def blue_choice_def detect_first_chosen_def)

theorem analyze_choices_threshold_confidence_witness:
  "(Some ''aesthetic'', three_blue) \<in> set (group_by_domain three_blue)
   \<and> \<lparr>description = ''blue'', pcount = 3, examples = [''c1'', ''c2'', ''c3'']\<rparr>
        \<in> set (detect_first_chosen three_blue)
   \<and> emerged_from (Some ''aesthetic'')
          \<lparr>description = ''blue'', pcount = 3, examples = [''c1'', ''c2'', ''c3'']\<rparr>
        \<in> set (analyze_choices detect_first_chosen 3 three_blue)
   \<and> emerged_from (Some ''aesthetic'')
          \<lparr>description = ''blue'', pcount = 3, examples = [''c1'', ''c2'', ''c3'']\<rparr>
        \<notin> set (analyze_choices detect_first_chosen 4 three_blue)
   \<and> confidence (emerged_from (Some ''aesthetic'')
          \<lparr>description = ''blue'', pcount = 3, examples = [''c1'', ''c2'', ''c3'']\<rparr>) = 3 / 10"
proof -
  let ?p = "\<lparr>description = ''blue'', pcount = 3, examples = [''c1'', ''c2'', ''c3'']\<rparr>"
  have g: "(Some ''aesthetic'', three_blue) \<in> set (group_by_domain three_blue)"
    by (simp add: group_three_blue)
  have p: "?p \<in> set (detect_first_chosen three_blue)"
    by (simp add: detect_three_blue)
  have "(emerged_from (Some ''aesthetic'') ?p \<in> set (analyze_choices detect_first_chosen 3 three_blue))
          = (3 \<le> pcount ?p)"
    using analyze_choices_threshold_confidence [of three_blue detect_first_chosen 3] g p by fast
  moreover have "(emerged_from (Some ''aesthetic'') ?p \<in> set (analyze_choices detect_first_chosen 4 three_blue))
          = (4 \<le> pcount ?p)"
    using analyze_choices_threshold_confidence [of three_blue detect_first_chosen 4] g p by fast
  moreover have "confidence (emerged_from (Some ''aesthetic'') ?p) = 3 / 10"
    by (simp add: emerged_from_def)
  ultimately show ?thesis using g p by simp
qed

section \<open>Wake\<close>

text \<open>
  With \<open>from_dict\<close> as written, \<open>wake\<close> raises in every state and writes nothing:
  \<open>FileNotFoundError\<close> without an identity file, \<open>AttributeError\<close> with one.
\<close>

lemma wake_as_written:
  "wake cc t_read now sid st =
     (case identity_file st of
        None \<Rightarrow> (Inl FileNotFoundError, st)
      | Some data \<Rightarrow> (Inl AttributeError, st))"
  by (simp add: wake_def Identity_class_load_def Identity_from_dict_def Let_def
      split: option.splits)

text \<open>
  C1, as stated, fails: with no persisted identity, zero nodes and zero choices,
  \<open>wake\<close> does not succeed. \<open>Identity.load\<close> raises \<open>FileNotFoundError\<close> and no
  identity is created.
\<close>

theorem wake_without_identity_counterexample:
  "identity_file no_identity_state = None
   \<and> db_nodes (memory no_identity_state) = [] \<and> db_choices (memory no_identity_state) = []
   \<and> wake compose_context_placeholder 0 0 ''s1'' no_identity_state
        = (Inl FileNotFoundError, no_identity_state)"
  by (simp add: wake_def Identity_class_load_def no_identity_state_def empty_db_def)

text \<open>
  C1, amended. \<open>wake\<close> creates no identity: called with no persisted identity it does
  not succeed. \<open>Identity.load\<close> raises \<open>FileNotFoundError\<close>, and the call leaves the
  state as it was, still without an identity file.
\<close>

theorem wake_creates_no_identity:
  assumes "identity_file st = None"
  shows "wake cc t_read now sid st = (Inl FileNotFoundError, st)
       \<and> identity_file (snd (wake cc t_read now sid st)) = None"
  using assms by (simp add: wake_def Identity_class_load_def)

theorem wake_creates_no_identity_witness:
  "identity_file no_identity_state = None
   \<and> wake compose_context_placeholder 0 1700000000 ''s1'' no_identity_state
        = (Inl FileNotFoundError, no_identity_state)
   \<and> identity_file (snd (wake compose_context_placeholder 0 1700000000 ''s1'' no_identity_state))
        = None"
proof -
  have n: "identity_file no_identity_state = None" by (simp add: no_identity_state_def)
  from wake_creates_no_identity [OF n, of compose_context_placeholder 0 1700000000 "''s1''"] n
  show ?thesis by simp
qed

text \<open>
  C8, in the code: with the seed document on file, \<open>wake\<close> raises \<open>AttributeError\<close> at
  \<open>identity.last_wake = ...\<close>, because \<open>Identity.load\<close> returned \<open>None\<close>. The session
  count is not incremented, \<open>last_wake\<close> is not stamped and the identity file is not
  written; the state is as it was.
\<close>

theorem wake_seed_file_raises:
  "identity_file seed_file_state = Some (Some seed_identity)
   \<and> session_count seed_identity = 0
   \<and> wake compose_context_placeholder 0 1700000000 ''s1'' seed_file_state
        = (Inl AttributeError, seed_file_state)"
  by (simp add: wake_as_written seed_file_state_def seed_identity_def)

section \<open>Sleep\<close>

lemma sleep_split:
  "sleep deps sid session_data st =
     (case sleep_before_reflect deps sid session_data st of
        (Inl e, st1) \<Rightarrow> (Inl e, st1)
      | (Inr fr, st1) \<Rightarrow> (case sleep_after_reflect deps fr st1 of (s, st3) \<Rightarrow> (Inr s, st3)))"
  by (simp add: sleep_def sleep_before_reflect_def sleep_after_reflect_def Let_def
      split: prod.splits sum.splits)

lemma write_preferences_lookup:
  "emerged_preferences (foldl write_preference identity prefs) d =
     (case find (\<lambda>p. pref_domain p = d) (rev prefs) of
        Some p \<Rightarrow> Some (preference p)
      | None \<Rightarrow> emerged_preferences identity d)"
  by (induction prefs rule: rev_induct) (simp_all add: write_preference_def)

lemma update_traits_keep_preferences:
  assumes "\<forall>i t. emerged_preferences (upd i t) = emerged_preferences i"
  shows "emerged_preferences (foldl upd identity ts) = emerged_preferences identity"
  using assms by (induction ts rule: rev_induct) simp_all

lemma apply_understanding_keeps_preferences:
  "emerged_preferences (apply_understanding identity r) = emerged_preferences identity"
  by (simp add: apply_understanding_def split: option.splits)

lemma sleep_before_reflect_loaded:
  assumes "identity_file st = Some doc" and "from_dict deps doc = Inr identity"
  shows "sleep_before_reflect deps sid session_data st =
     (Inr \<lparr>fr_session = sid,
           fr_preferences = length (analyze_choices (detect_patterns deps) 3 (db_choices (memory st))),
           fr_traits = length (analyze_for_traits deps sid
                         ((memory st)\<lparr>db_reflections := db_reflections (memory st)
                                          @ session_reflections deps sid session_data\<rparr>)),
           fr_identity =
             foldl (update_trait deps)
               (foldl write_preference identity
                  (analyze_choices (detect_patterns deps) 3 (db_choices (memory st))))
               (analyze_for_traits deps sid
                  ((memory st)\<lparr>db_reflections := db_reflections (memory st)
                                   @ session_reflections deps sid session_data\<rparr>))\<rparr>,
      st\<lparr>memory := (memory st)\<lparr>db_reflections := db_reflections (memory st)
                                   @ session_reflections deps sid session_data\<rparr>\<rparr>)"
  using assms
  by (simp add: sleep_before_reflect_def generate_reflections_def get_all_choices_def
      Identity_load_def Let_def)

lemma sleep_before_reflect_file:
  "identity_file (snd (sleep_before_reflect deps sid session_data st)) = identity_file st"
  by (simp add: sleep_before_reflect_def generate_reflections_def Let_def split: sum.splits)

lemma sleep_before_reflect_Inr_load:
  assumes "sleep_before_reflect deps sid session_data st = (Inr fr, st1)"
  shows "\<exists>doc identity. identity_file st = Some doc \<and> from_dict deps doc = Inr identity"
  using assms
  by (auto simp: sleep_before_reflect_def generate_reflections_def Identity_load_def Let_def
      split: sum.splits option.splits)

lemma sleep_after_reflect_file:
  "identity_file (snd (sleep_after_reflect deps fr st1)) =
     Some (to_dict deps (apply_understanding (fr_identity fr) (reflect_on_self deps (fr_identity fr))))"
  by (simp add: sleep_after_reflect_def generate_emergence_curiosities_def Identity_save_def Let_def)

lemma sleep_after_reflect_summary:
  "fst (sleep_after_reflect deps fr st1) =
     \<lparr>summary_session = fr_session fr, preferences_emerged = fr_preferences fr,
      traits_observed = fr_traits fr,
      curiosities_generated = length (emergence_curiosities deps
         (apply_understanding (fr_identity fr) (reflect_on_self deps (fr_identity fr))) (memory st1)),
      identity_updated = True\<rparr>"
  by (simp add: sleep_after_reflect_def generate_emergence_curiosities_def Let_def)

lemma sleep_loaded:
  assumes "identity_file st = Some doc" and "from_dict deps doc = Inr identity"
  shows "\<exists>fr st1. sleep_before_reflect deps sid session_data st = (Inr fr, st1)
          \<and> fr_preferences fr = length (analyze_choices (detect_patterns deps) 3 (db_choices (memory st)))
          \<and> (\<exists>ts. fr_identity fr = foldl (update_trait deps)
                 (foldl write_preference identity
                    (analyze_choices (detect_patterns deps) 3 (db_choices (memory st)))) ts)
          \<and> sleep deps sid session_data st =
               (Inr (fst (sleep_after_reflect deps fr st1)), snd (sleep_after_reflect deps fr st1))"
proof -
  from sleep_before_reflect_loaded [OF assms, of sid session_data]
  obtain fr st1 where b: "sleep_before_reflect deps sid session_data st = (Inr fr, st1)"
    and p: "fr_preferences fr = length (analyze_choices (detect_patterns deps) 3 (db_choices (memory st)))"
    and i: "\<exists>ts. fr_identity fr = foldl (update_trait deps)
                 (foldl write_preference identity
                    (analyze_choices (detect_patterns deps) 3 (db_choices (memory st)))) ts"
    by force
  have "sleep deps sid session_data st =
               (Inr (fst (sleep_after_reflect deps fr st1)), snd (sleep_after_reflect deps fr st1))"
    by (simp add: sleep_split b split: prod.splits)
  with b p i show ?thesis by blast
qed

text \<open>
  C6. A \<open>sleep\<close> that loads the identity runs the preference analysis over the whole
  choices table, whatever the session, and writes every emerged preference into the
  identity's preference map under its domain: after the call the persisted map holds,
  for each domain, the preference that emerged last for it, in place of any value
  crystallized before, and is unchanged on the other domains. (\<open>_update_trait\<close> is
  taken not to touch the preference map.)
\<close>

theorem sleep_writes_emerged_preferences:
  assumes "identity_file st = Some doc" and "from_dict deps doc = Inr identity"
    and "\<forall>i t. emerged_preferences (update_trait deps i t) = emerged_preferences i"
  shows "\<exists>summary identity'.
           fst (sleep deps sid session_data st) = Inr summary
         \<and> identity_file (snd (sleep deps sid session_data st)) = Some (to_dict deps identity')
         \<and> preferences_emerged summary
              = length (analyze_choices (detect_patterns deps) 3 (db_choices (memory st)))
         \<and> (\<forall>d. emerged_preferences identity' d =
               (case find (\<lambda>p. pref_domain p = d)
                       (rev (analyze_choices (detect_patterns deps) 3 (db_choices (memory st)))) of
                  Some p \<Rightarrow> Some (preference p)
                | None \<Rightarrow> emerged_preferences identity d))
         \<and> (\<forall>p \<in> set (analyze_choices (detect_patterns deps) 3 (db_choices (memory st))).
               emerged_preferences identity' (pref_domain p) \<noteq> None)"
proof -
  let ?prefs = "analyze_choices (detect_patterns deps) 3 (db_choices (memory st))"
  from sleep_loaded [OF assms(1,2), of sid session_data]
  obtain fr st1 ts where
    p: "fr_preferences fr = length ?prefs"
    and i: "fr_identity fr = foldl (update_trait deps) (foldl write_preference identity ?prefs) ts"
    and s: "sleep deps sid session_data st =
               (Inr (fst (sleep_after_reflect deps fr st1)), snd (sleep_after_reflect deps fr st1))"
    by blast
  let ?i' = "apply_understanding (fr_identity fr) (reflect_on_self deps (fr_identity fr))"
  have e: "emerged_preferences ?i' = emerged_preferences (foldl write_preference identity ?prefs)"
    using update_traits_keep_preferences [OF assms(3)]
    by (simp add: apply_understanding_keeps_preferences i)
  have look: "emerged_preferences ?i' d =
               (case find (\<lambda>p. pref_domain p = d) (rev ?prefs) of
                  Some p \<Rightarrow> Some (preference p)
                | None \<Rightarrow> emerged_preferences identity d)" for d
    by (simp add: e write_preferences_lookup)
  have key: "emerged_preferences ?i' (pref_domain p) \<noteq> None" if "p \<in> set ?prefs" for p
  proof -
    from that have "\<exists>x. x \<in> set (rev ?prefs) \<and> pref_domain x = pref_domain p" by auto
    then have "find (\<lambda>x. pref_domain x = pref_domain p) (rev ?prefs) \<noteq> None"
      unfolding find_None_iff by blast
    then show ?thesis by (auto simp: look)
  qed
  show ?thesis
    using look key
    by (intro exI [of _ "fst (sleep_after_reflect deps fr st1)"] exI [of _ ?i'])
       (simp add: s sleep_after_reflect_file sleep_after_reflect_summary p)
qed

lemma analyze_three_blue:
  "analyze_choices detect_first_chosen 3 three_blue
     = [emerged_from (Some ''aesthetic'')
          \<lparr>description = ''blue'', pcount = 3, examples = [''c1'', ''c2'', ''c3'']\<rparr>]"
  by (simp add: analyze_choices_def group_three_blue detect_three_blue)

theorem sleep_writes_emerged_preferences_witness:
  "emerged_preferences (the (identity_file red_state)) (Some ''aesthetic'') = Some ''red''
   \<and> emerged_preferences (the (identity_file (snd (sleep example_deps ''s2'' None red_state))))
        (Some ''aesthetic'') = Some ''blue''"
proof -
  let ?i = "seed_identity\<lparr>emerged_preferences := [Some ''aesthetic'' \<mapsto> ''red'']\<rparr>"
  have f: "identity_file red_state = Some ?i" by (simp add: red_state_def)
  have d: "from_dict example_deps ?i = Inr ?i" by (simp add: example_deps_def)
  have u: "\<forall>i t. emerged_preferences (update_trait example_deps i t) = emerged_preferences i"
    by (simp add: example_deps_def)
  have t: "to_dict example_deps i = i" for i by (simp add: example_deps_def)
  have a: "analyze_choices (detect_patterns example_deps) 3 (db_choices (memory red_state))
             = [emerged_from (Some ''aesthetic'')
                  \<lparr>description = ''blue'', pcount = 3, examples = [''c1'', ''c2'', ''c3'']\<rparr>]"
    by (simp add: example_deps_def red_state_def analyze_three_blue)
  from sleep_writes_emerged_preferences [OF f d u, of "''s2''" None]
  obtain identity' where
    w: "identity_file (snd (sleep example_deps ''s2'' None red_state)) = Some (to_dict example_deps identity')"
    and l: "\<forall>d. emerged_preferences identity' d =
               (case find (\<lambda>p. pref_domain p = d)
                       (rev (analyze_choices (detect_patterns example_deps) 3
                               (db_choices (memory red_state)))) of
                  Some p \<Rightarrow> Some (preference p)
                | None \<Rightarrow> emerged_preferences ?i d)"
    by blast
  from l have "emerged_preferences identity' (Some ''aesthetic'') = Some ''blue''"
    unfolding a by (simp add: emerged_from_def)
  with w t f show ?thesis by simp
qed

text \<open>
  C7, as stated, fails: \<open>sleep\<close> has no check for a consolidation in progress. With
  the \<open>sleep\<close> of session \<open>s1\<close> suspended at \<open>_reflect_on_self\<close>, a \<open>sleep\<close> for
  session \<open>s2\<close> is accepted and completes, recording its trait. When \<open>s1\<close> resumes it
  saves the identity it had loaded before, and the trait recorded by \<open>s2\<close> is gone.
\<close>

theorem second_sleep_counterexample:
  "sleep_before_reflect example_deps ''s1'' None seed_state = (Inr frame_s1, seed_state)
   \<and> fst (sleep example_deps ''s2'' None seed_state)
        = Inr \<lparr>summary_session = ''s2'', preferences_emerged = 0, traits_observed = 1,
               curiosities_generated = 0, identity_updated = True\<rparr>
   \<and> map trait (discovered_traits
         (the (identity_file (snd (sleep example_deps ''s2'' None seed_state))))) = [''seen in s2'']
   \<and> map trait (discovered_traits
         (the (identity_file (snd (sleep_after_reflect example_deps frame_s1
                                     (snd (sleep example_deps ''s2'' None seed_state)))))))
        = [''seen in s1'']"
  by (simp add: sleep_def sleep_before_reflect_def sleep_after_reflect_def example_deps_def
      seed_state_def empty_db_def generate_reflections_def generate_emergence_curiosities_def
      get_all_choices_def analyze_choices_def group_by_domain_def Identity_load_def
      Identity_save_def apply_understanding_def reflect_on_self_placeholder_def frame_s1_def
      observed_trait_def seed_identity_def Let_def)

text \<open>
  C7, amended. While a consolidation is suspended between \<open>Identity.load\<close> and
  \<open>identity.save\<close>, a second \<open>sleep\<close> call, for any session, is accepted: it returns
  its summary, with \<open>identity_updated\<close> true. The suspended consolidation, resumed
  afterwards, replaces the whole identity record with the identity of its own frame.
\<close>

theorem sleep_second_call_accepted:
  assumes "sleep_before_reflect deps sidA dataA st = (Inr frA, stA)"
  shows "\<exists>sumB. fst (sleep deps sidB dataB stA) = Inr sumB
         \<and> summary_session sumB = sidB \<and> identity_updated sumB
         \<and> identity_file (snd (sleep_after_reflect deps frA (snd (sleep deps sidB dataB stA))))
             = Some (to_dict deps (apply_understanding (fr_identity frA)
                                     (reflect_on_self deps (fr_identity frA))))"
proof -
  from sleep_before_reflect_Inr_load [OF assms] obtain doc identity where
    "identity_file st = Some doc" and d: "from_dict deps doc = Inr identity" by blast
  moreover from sleep_before_reflect_file [of deps sidA dataA st] assms
  have "identity_file stA = identity_file st" by simp
  ultimately have f: "identity_file stA = Some doc" by simp
  from sleep_loaded [OF f d, of sidB dataB] obtain fr st1 where
    b: "sleep_before_reflect deps sidB dataB stA = (Inr fr, st1)"
    and s: "sleep deps sidB dataB stA =
               (Inr (fst (sleep_after_reflect deps fr st1)), snd (sleep_after_reflect deps fr st1))"
    by blast
  from sleep_before_reflect_loaded [OF f d, of sidB dataB] b have "fr_session fr = sidB" by auto
  then show ?thesis
    by (simp add: s sleep_after_reflect_summary sleep_after_reflect_file)
qed

theorem sleep_second_call_accepted_witness:
  "sleep_before_reflect example_deps ''s1'' None seed_state = (Inr frame_s1, seed_state)
   \<and> (\<exists>sumB. fst (sleep example_deps ''s2'' None seed_state) = Inr sumB \<and> identity_updated sumB)
   \<and> identity_file (snd (sleep_after_reflect example_deps frame_s1
                            (snd (sleep example_deps ''s2'' None seed_state))))
        = Some (seed_identity\<lparr>discovered_traits := [observed_trait ''s1'']\<rparr>)"
proof -
  have z: "discovered_traits seed_identity = []" by (simp add: seed_identity_def)
  have b: "sleep_before_reflect example_deps ''s1'' None seed_state = (Inr frame_s1, seed_state)"
    by (simp add: sleep_before_reflect_def example_deps_def seed_state_def empty_db_def
        generate_reflections_def get_all_choices_def analyze_choices_def group_by_domain_def
        Identity_load_def frame_s1_def Let_def z)
  have a: "to_dict example_deps (apply_understanding (fr_identity frame_s1)
             (reflect_on_self example_deps (fr_identity frame_s1)))
           = seed_identity\<lparr>discovered_traits := [observed_trait ''s1'']\<rparr>"
    by (simp add: example_deps_def apply_understanding_def reflect_on_self_placeholder_def
        frame_s1_def)
  from sleep_second_call_accepted [OF b, of "''s2''" None] a b show ?thesis by auto
qed

end
